theory Spec2Isabelle
  imports Main "HOL-Library.Sublist"
begin

section \<open>JavaScript strings and values\<close>

text \<open>
  Strings are \<open>string\<close>. A property that may be \<open>undefined\<close> is an \<open>option\<close>.
  \<open>startsWith\<close> and \<open>str_includes\<close> are the methods \<open>startsWith\<close> and \<open>includes\<close> of
  a JavaScript string; a template literal prints \<open>undefined\<close> as the nine letters; a
  string is truthy when it is not empty.
\<close>

definition startsWith :: "string \<Rightarrow> string \<Rightarrow> bool" where
  "startsWith s p = prefix p s"

definition str_includes :: "string \<Rightarrow> string \<Rightarrow> bool" where
  "str_includes s sub = sublist sub s"

definition template :: "string option \<Rightarrow> string" where
  "template v = (case v of None \<Rightarrow> ''undefined'' | Some s \<Rightarrow> s)"

definition truthy :: "string option \<Rightarrow> bool" where
  "truthy v = (case v of None \<Rightarrow> False | Some s \<Rightarrow> s \<noteq> [])"

text \<open>\<open>a || b\<close> on optional strings, with \<open>b\<close> a string: the first operand when truthy.\<close>

definition or_else :: "string option \<Rightarrow> string \<Rightarrow> string" where
  "or_else v d = (case v of None \<Rightarrow> d | Some s \<Rightarrow> if s = [] then d else s)"

text \<open>
  \<open>s.split(sep)\<close> for a one-character separator: every segment, at least one
  (\<open>"".split(":")\<close> is \<open>[""]\<close>). \<open>s.split(sep, limit)\<close> computes all segments and keeps
  the first \<open>limit\<close> of them; what follows is dropped, not joined to the last one.
\<close>

fun segments :: "char \<Rightarrow> string \<Rightarrow> string list" where
  "segments c [] = [[]]"
| "segments c (x # xs) =
     (if x = c then [] # segments c xs
      else (case segments c xs of [] \<Rightarrow> [[x]] | p # ps \<Rightarrow> (x # p) # ps))"

definition split_limit :: "string \<Rightarrow> char \<Rightarrow> nat \<Rightarrow> string list" where
  "split_limit s c limit = take limit (segments c s)"

section \<open>types.ts\<close>

datatype PresetSource = ChatLuna | Character

fun source_tag :: "PresetSource \<Rightarrow> string" where
  "source_tag ChatLuna = ''chatluna''"
| "source_tag Character = ''character''"

text \<open>
  \<open>BotPersonaConfig\<close>. The fields \<open>preset\<close>, \<open>model\<close> and \<open>chatMode\<close> carry the prefix
  \<open>cfg_\<close> here, since the room record below has fields of the same names.
\<close>

record BotPersonaConfig =
  botId :: string
  enabled :: bool
  cfg_preset :: string
  cfg_model :: string
  cfg_chatMode :: "string option"

record ParsedPreset =
  name :: string
  source :: PresetSource

section \<open>bot-manager.ts: pure functions\<close>

definition generateConversationId :: "string \<Rightarrow> string \<Rightarrow> string" where
  \<comment> \<open>the second argument is the value \<open>randomUUID()\<close> returned\<close>
  "generateConversationId bid uuid = ''bot_'' @ bid @ ''_'' @ uuid"

definition getBotId :: "string \<Rightarrow> string option \<Rightarrow> string" where
  "getBotId pf sid = pf @ '':'' @ template sid"

definition getBotConfig :: "BotPersonaConfig list \<Rightarrow> string \<Rightarrow> BotPersonaConfig option" where
  "getBotConfig config bid = find (\<lambda>bot. botId bot = bid) config"

definition parsePresetName :: "string \<Rightarrow> ParsedPreset" where
  "parsePresetName presetName =
     (let parts = split_limit presetName CHR '':'' 2 in
      if length parts = 2 \<and> hd parts = source_tag ChatLuna
        then \<lparr>name = parts ! 1, source = ChatLuna\<rparr>
      else if length parts = 2 \<and> hd parts = source_tag Character
        then \<lparr>name = parts ! 1, source = Character\<rparr>
      else \<lparr>name = presetName, source = ChatLuna\<rparr>)"

text \<open>
  The reading of the specification: cut at the first separator, keep all of the rest.
\<close>

definition resolveName_spec :: "string \<Rightarrow> ParsedPreset" where
  "resolveName_spec raw =
     (let pre = takeWhile (\<lambda>c. c \<noteq> CHR '':'') raw;
          rest = drop (Suc (length pre)) raw in
      if CHR '':'' \<in> set raw \<and> pre = source_tag ChatLuna then \<lparr>name = rest, source = ChatLuna\<rparr>
      else if CHR '':'' \<in> set raw \<and> pre = source_tag Character
        then \<lparr>name = rest, source = Character\<rparr>
      else \<lparr>name = raw, source = ChatLuna\<rparr>)"

definition parseBotId :: "string \<Rightarrow> string \<times> string option" where
  \<comment> \<open>\<open>const [platform, selfId] = botId.split(':', 2)\<close>: the second is undefined without a separator\<close>
  "parseBotId bid =
     (case split_limit bid CHR '':'' 2 of
        [] \<Rightarrow> ([], None)
      | [p] \<Rightarrow> (p, None)
      | p # q # _ \<Rightarrow> (p, Some q))"

section \<open>The store\<close>

text \<open>
  The tables of \<open>declare module 'koishi' { interface Tables }\<close> in types.ts. Optional
  columns are options. \<open>updatedTime\<close> is a point in time, a natural number here. The
  columns \<open>userId\<close>, \<open>roomId\<close> and \<open>groupId\<close> of the three smaller tables carry a prefix,
  since a record's field names are global.
\<close>

record Room =
  roomId :: nat
  roomName :: string
  conversationId :: string
  preset :: "string option"
  model :: "string option"
  chatMode :: "string option"
  visibility :: "string option"
  updatedTime :: nat
  roomMasterId :: "string option"
  autoUpdate :: "bool option"
  password :: "string option"

record RoomMember =
  member_userId :: "string option"
  member_roomId :: nat
  roomPermission :: "string option"
  mute :: "bool option"

record RoomGroupMember =
  group_groupId :: string
  group_roomId :: nat
  roomVisibility :: "string option"

record UserRow =
  user_userId :: string
  user_groupId :: string
  defaultRoomId :: nat

text \<open>
  \<open>ctx.database\<close> belongs to the host. Its five writing calls made by this plugin are
  named; a thrown error either carries \<open>UNIQUE constraint\<close> in its message or does not.
\<close>

datatype db_call =
    create_chathub_room
  | create_chathub_room_member
  | create_chathub_room_group_member
  | create_chathub_user
  | upsert_chathub_room

datatype db_error = UniqueConstraint | OtherFailure

datatype db_write =
    CreateRoom Room
  | CreateMember RoomMember
  | CreateGroupMember RoomGroupMember
  | CreateUser UserRow
  | UpsertRoom Room

text \<open>The runtime status of a bot (\<open>BotStatus\<close>); \<open>error\<close> holds the error caught.\<close>

record BotStatus =
  status_botId :: string
  status_platform :: string
  initialized :: bool
  templateRoomId :: "nat option"
  currentPreset :: "string option"
  currentModel :: "string option"
  status_error :: "db_error option"

text \<open>
  The configuration object of the character plugin, as far as \<open>configureCharacterPlugin\<close>
  touches it: \<open>applyGroup\<close> (\<open>None\<close> when it is not an array) and, for each group, the
  preset stored under \<open>configs[guildId].preset\<close>.
\<close>

record CharacterConfig =
  applyGroup :: "string list option"
  configs :: "(string \<rightharpoonup> string) option"

text \<open>
  Everything the plugin reads and writes outside a message's own context: the four
  tables, the store's answer to each writing call (\<open>refuses\<close>: the error it throws, if
  any; the host's schema and its constraints are not part of this repository), the
  list of writes the store accepted so far, the character plugin's configuration
  (\<open>None\<close>: the plugin or its \<open>_config\<close> is absent) and \<open>BotManager.botStatusMap\<close>.
\<close>

record world =
  chathub_room :: "Room list"
  chathub_room_member :: "RoomMember list"
  chathub_room_group_member :: "RoomGroupMember list"
  chathub_user :: "UserRow list"
  refuses :: "db_call \<Rightarrow> db_error option"
  written :: "db_write list"
  characterConfig :: "CharacterConfig option"
  botStatusMap :: "string \<rightharpoonup> BotStatus"

text \<open>
  Modelled from the spec: the persistent store's \<open>create\<close> and \<open>upsert\<close> ("operations
  are get(filter), create(record), upsert(record); uniqueness violations on create
  must be distinguishable from other failures"). A create appends the row unless the
  store throws; an upsert replaces the rows of the same \<open>roomId\<close>, or appends. A
  \<open>get\<close> returns the matching rows in the table's order and does not throw.
\<close>

definition db_create_room :: "Room \<Rightarrow> world \<Rightarrow> db_error + world" where
  "db_create_room r w =
     (case refuses w create_chathub_room of
        Some e \<Rightarrow> Inl e
      | None \<Rightarrow> Inr (w\<lparr>chathub_room := chathub_room w @ [r],
                       written := written w @ [CreateRoom r]\<rparr>))"

definition db_create_member :: "RoomMember \<Rightarrow> world \<Rightarrow> db_error + world" where
  "db_create_member m w =
     (case refuses w create_chathub_room_member of
        Some e \<Rightarrow> Inl e
      | None \<Rightarrow> Inr (w\<lparr>chathub_room_member := chathub_room_member w @ [m],
                       written := written w @ [CreateMember m]\<rparr>))"

definition db_create_group_member :: "RoomGroupMember \<Rightarrow> world \<Rightarrow> db_error + world" where
  "db_create_group_member g w =
     (case refuses w create_chathub_room_group_member of
        Some e \<Rightarrow> Inl e
      | None \<Rightarrow> Inr (w\<lparr>chathub_room_group_member := chathub_room_group_member w @ [g],
                       written := written w @ [CreateGroupMember g]\<rparr>))"

definition db_create_user :: "UserRow \<Rightarrow> world \<Rightarrow> db_error + world" where
  "db_create_user u w =
     (case refuses w create_chathub_user of
        Some e \<Rightarrow> Inl e
      | None \<Rightarrow> Inr (w\<lparr>chathub_user := chathub_user w @ [u],
                       written := written w @ [CreateUser u]\<rparr>))"

definition replace_room :: "Room \<Rightarrow> Room \<Rightarrow> Room" where
  "replace_room r x = (if roomId x = roomId r then r else x)"

definition db_upsert_room :: "Room \<Rightarrow> world \<Rightarrow> db_error + world" where
  "db_upsert_room r w =
     (case refuses w upsert_chathub_room of
        Some e \<Rightarrow> Inl e
      | None \<Rightarrow>
          Inr (w\<lparr>chathub_room :=
                    (if roomId r \<in> set (map roomId (chathub_room w))
                     then map (replace_room r) (chathub_room w)
                     else chathub_room w @ [r]),
                 written := written w @ [UpsertRoom r]\<rparr>))"

section \<open>A message and its context\<close>

text \<open>
  The session fields the interceptors read: \<open>bot_selfId\<close> is \<open>session.bot?.selfId\<close>,
  \<open>guild_name\<close> is \<open>session.event?.guild?.name\<close>.
\<close>

record Session =
  bot_selfId :: "string option"
  selfId :: "string option"
  platform :: string
  userId :: string
  guildId :: "string option"
  channelId :: "string option"
  username :: "string option"
  guild_name :: "string option"

text \<open>\<open>context.options.charonBotConfig\<close>, the stash of the first middleware.\<close>

record CharonBotConfig =
  stash_botId :: string
  stash_preset :: string
  stash_model :: string
  stash_chatMode :: string

text \<open>
  \<open>context.options\<close>, an object the host always provides; \<open>room_resolve_name\<close> is
  \<open>room_resolve?.name\<close>.
\<close>

record Options =
  room :: "Room option"
  charonBotConfig :: "CharonBotConfig option"
  room_resolve_name :: "string option"

text \<open>
  What a run takes from outside: the value of \<open>randomUUID()\<close>, and of \<open>new Date()\<close> in
  \<open>createRoom\<close> and in the second middleware.
\<close>

record Env =
  randomUUID :: string
  date_create :: nat
  date_fix :: nat

datatype ChainMiddlewareRunStatus = SKIPPED | STOP | CONTINUE

text \<open>The rooms among a list of writes that a \<open>create\<close> added, and the writes of a run.\<close>

fun created_rooms :: "db_write list \<Rightarrow> Room list" where
  "created_rooms [] = []"
| "created_rooms (CreateRoom r # ws) = r # created_rooms ws"
| "created_rooms (_ # ws) = created_rooms ws"

definition new_writes :: "world \<Rightarrow> world \<Rightarrow> db_write list" where
  "new_writes w w' = drop (length (written w)) (written w')"

section \<open>bot-manager.ts: createRoom and the status map\<close>

record CreateRoomOptions =
  opt_botId :: string
  opt_roomName :: string
  opt_roomMasterId :: "string option"
  opt_guildId :: "string option"
  opt_visibility :: string
  opt_preset :: "string option"
  opt_model :: "string option"
  opt_chatMode :: "string option"

definition newRoom_of :: "CreateRoomOptions \<Rightarrow> Env \<Rightarrow> world \<Rightarrow> Room" where
  \<comment> \<open>the object \<open>newRoom\<close> of \<open>createRoom\<close>\<close>
  "newRoom_of opts env w =
     (let result = take 1 (rev (sort_key roomId (chathub_room w)));
          maxRoomId = (case result of [] \<Rightarrow> 0 | r # _ \<Rightarrow> roomId r);
          newRoomId = maxRoomId + 1;
          conversationId' = generateConversationId (opt_botId opts) (randomUUID env);
          presetName = (if truthy (opt_preset opts)
                        then name (parsePresetName (template (opt_preset opts))) else [])
      in \<lparr>roomId = newRoomId,
          roomName = opt_roomName opts,
          conversationId = conversationId',
          preset = Some presetName,
          model = Some (or_else (opt_model opts) []),
          chatMode = Some (or_else (opt_chatMode opts) ''chat''),
          visibility = Some (opt_visibility opts),
          updatedTime = date_create env,
          roomMasterId = opt_roomMasterId opts,
          autoUpdate = Some False,
          password = Some []\<rparr>)"

text \<open>
  \<open>createRoom\<close>: each of the three creates logs and rethrows what the store throws;
  rows created before the failing one stay. The result is the error or the new room,
  with the store as the call left it.
\<close>

definition createRoom ::
  "CreateRoomOptions \<Rightarrow> Env \<Rightarrow> world \<Rightarrow> (db_error + Room) \<times> world" where
  "createRoom opts env w =
     (let newRoom = newRoom_of opts env w in
      case db_create_room newRoom w of
        Inl e \<Rightarrow> (Inl e, w)
      | Inr w1 \<Rightarrow>
          (case db_create_member
                  \<lparr>member_userId = opt_roomMasterId opts, member_roomId = roomId newRoom,
                   roomPermission = Some ''owner'', mute = None\<rparr> w1 of
             Inl e \<Rightarrow> (Inl e, w1)
           | Inr w2 \<Rightarrow>
               if truthy (opt_guildId opts) \<and> opt_visibility opts \<noteq> ''private'' then
                 (case db_create_group_member
                         \<lparr>group_groupId = template (opt_guildId opts),
                          group_roomId = roomId newRoom,
                          roomVisibility = Some (opt_visibility opts)\<rparr> w2 of
                    Inl e \<Rightarrow> (Inl e, w2)
                  | Inr w3 \<Rightarrow> (Inr newRoom, w3))
               else (Inr newRoom, w2)))"

definition setBotStatus :: "string \<Rightarrow> (BotStatus \<Rightarrow> BotStatus) \<Rightarrow> world \<Rightarrow> world" where
  \<comment> \<open>the partial status is the record update it stands for\<close>
  "setBotStatus bid status w =
     (let current = (case botStatusMap w bid of
                       Some c \<Rightarrow> c
                     | None \<Rightarrow> \<lparr>status_botId = bid, status_platform = fst (parseBotId bid),
                                initialized = False, templateRoomId = None,
                                currentPreset = None, currentModel = None,
                                status_error = None\<rparr>)
      in w\<lparr>botStatusMap := (botStatusMap w)(bid \<mapsto> status current)\<rparr>)"

section \<open>interceptors/chain.ts\<close>

definition isDirect :: "Session \<Rightarrow> bool" where
  "isDirect session = (\<not> truthy (guildId session))"

definition bot_tag :: "string \<Rightarrow> string" where
  \<comment> \<open>the template \<open>(${botId})\<close>\<close>
  "bot_tag bid = ''('' @ bid @ '')''"

definition findBotSpecificRoom :: "string \<Rightarrow> string \<Rightarrow> world \<Rightarrow> Room option" where
  "findBotSpecificRoom rname bid w =
     (case filter (\<lambda>r. roomName r = rname) (chathub_room w) of
        [] \<Rightarrow> None
      | r # _ \<Rightarrow> if str_includes (roomName r) (bot_tag bid) then Some r else None)"

text \<open>
  \<open>createBotSpecificRoom\<close>: the error of \<open>createRoom\<close> passes through; the error of the
  \<open>chathub_user\<close> create is caught and logged, whatever it is (the two branches of the
  \<open>catch\<close> differ in the log line only). \<open>groupId\<close> is \<open>isDirect ? '0' : guildId\<close>, which
  is \<open>guildId || '0'\<close>. The preset name parsed at the top of the function is used in a
  log line only. Log lines are not modelled, here and below.
\<close>

definition botRoomOptions :: "Session \<Rightarrow> string \<Rightarrow> BotPersonaConfig \<Rightarrow> CreateRoomOptions" where
  \<comment> \<open>the argument \<open>createBotSpecificRoom\<close> passes to \<open>createRoom\<close>\<close>
  "botRoomOptions session bid botConfig =
     (let username' = or_else (username session) (userId session);
          roomName' = (if isDirect session then username' @ '' '' @ bot_tag bid
                       else or_else (guild_name session) username' @ '' '' @ bot_tag bid)
      in \<lparr>opt_botId = bid, opt_roomName = roomName',
          opt_roomMasterId = Some (userId session),
          opt_guildId = guildId session,
          opt_visibility = (if isDirect session then ''private'' else ''template_clone''),
          opt_preset = Some (cfg_preset botConfig),
          opt_model = Some (cfg_model botConfig),
          opt_chatMode = Some (or_else (cfg_chatMode botConfig) ''chat'')\<rparr>)"

definition createBotSpecificRoom ::
  "Session \<Rightarrow> string \<Rightarrow> BotPersonaConfig \<Rightarrow> Env \<Rightarrow> world \<Rightarrow> (db_error + Room) \<times> world" where
  "createBotSpecificRoom session bid botConfig env w =
     (case createRoom (botRoomOptions session bid botConfig) env w of
        (Inl e, w1) \<Rightarrow> (Inl e, w1)
      | (Inr newRoom, w1) \<Rightarrow>
          (case db_create_user
                  \<lparr>user_userId = userId session,
                   user_groupId = or_else (guildId session) ''0'',
                   defaultRoomId = roomId newRoom\<rparr> w1 of
             Inl e \<Rightarrow> (Inr newRoom, w1)
           | Inr w2 \<Rightarrow> (Inr newRoom, w2)))"

text \<open>The variable \<open>selectedRoom\<close> of \<open>getOrCreateBotSpecificRoom\<close>.\<close>

definition selectedRoom :: "Session \<Rightarrow> string \<Rightarrow> world \<Rightarrow> Room option" where
  "selectedRoom session bid w =
     (let userRooms = filter (\<lambda>m. member_userId m = Some (userId session))
                        (chathub_room_member w)
      in if length userRooms > 0 then
           (let roomIds = map member_roomId userRooms;
                allRooms = filter (\<lambda>r. roomId r \<in> set roomIds) (chathub_room w);
                rooms = filter (\<lambda>r. str_includes (roomName r) (bot_tag bid)) allRooms
            in if \<not> isDirect session then
                 (let groupRooms =
                        filter (\<lambda>g. Some (group_groupId g) = guildId session
                                    \<and> group_roomId g \<in> set roomIds)
                          (chathub_room_group_member w);
                      groupRoomIds = set (map group_roomId groupRooms)
                  in case find (\<lambda>r. roomId r \<in> groupRoomIds
                                    \<and> visibility r = Some ''template_clone'') rooms of
                       Some r \<Rightarrow> Some r
                     | None \<Rightarrow> find (\<lambda>r. roomId r \<in> groupRoomIds) rooms)
               else
                 (case find (\<lambda>r. visibility r = Some ''private''
                                 \<and> roomMasterId r = Some (userId session)) rooms of
                    Some r \<Rightarrow> Some r
                  | None \<Rightarrow>
                      (case find (\<lambda>r. visibility r = Some ''private'') rooms of
                         Some r \<Rightarrow> Some r
                       | None \<Rightarrow> (case rooms of [] \<Rightarrow> None | r # _ \<Rightarrow> Some r))))
         else None)"

definition getOrCreateBotSpecificRoom ::
  "Session \<Rightarrow> string \<Rightarrow> BotPersonaConfig \<Rightarrow> Env \<Rightarrow> world \<Rightarrow> (db_error + Room) \<times> world" where
  "getOrCreateBotSpecificRoom session bid botConfig env w =
     (case selectedRoom session bid w of
        Some r \<Rightarrow> (Inr r, w)
      | None \<Rightarrow> createBotSpecificRoom session bid botConfig env w)"

definition session_botId :: "Session \<Rightarrow> string" where
  \<comment> \<open>\<open>getBotId(session.platform, session.bot?.selfId ?? session.selfId)\<close>\<close>
  "session_botId session =
     getBotId (platform session)
       (case bot_selfId session of Some x \<Rightarrow> Some x | None \<Rightarrow> selfId session)"

definition configureCharacterPlugin :: "Session \<Rightarrow> string \<Rightarrow> world \<Rightarrow> world" where
  "configureCharacterPlugin session presetName w =
     (case characterConfig w of
        None \<Rightarrow> w
      | Some cc \<Rightarrow>
          (let guildId' = (if truthy (guildId session) then template (guildId session)
                           else or_else (channelId session) ''private'');
               groups = (case applyGroup cc of None \<Rightarrow> [] | Some gs \<Rightarrow> gs);
               groups' = (if guildId' \<in> set groups then groups else groups @ [guildId']);
               cfgs = (case configs cc of None \<Rightarrow> Map.empty | Some m \<Rightarrow> m)
           in w\<lparr>characterConfig :=
                   Some (cc\<lparr>applyGroup := Some groups',
                            configs := Some (cfgs(guildId' \<mapsto> presetName))\<rparr>)\<rparr>))"

text \<open>
  The first middleware, \<open>charon_resolve_bot_room\<close>, registered before \<open>resolve_room\<close>.
  The result is the status returned or the error thrown, the context and the store.
\<close>

definition charon_resolve_bot_room ::
  "BotPersonaConfig list \<Rightarrow> Session \<Rightarrow> Env \<Rightarrow> Options \<Rightarrow> world
     \<Rightarrow> (db_error + ChainMiddlewareRunStatus) \<times> Options \<times> world" where
  "charon_resolve_bot_room config session env options w =
     (let bid = session_botId session
      in case getBotConfig config bid of
           None \<Rightarrow> (Inr CONTINUE, options, w)
         | Some botConfig \<Rightarrow>
             if \<not> enabled botConfig then (Inr CONTINUE, options, w)
             else if cfg_preset botConfig = [] \<and> cfg_model botConfig = []
               then (Inr CONTINUE, options, w)
             else
               (let presetName = (if cfg_preset botConfig \<noteq> []
                                  then name (parsePresetName (cfg_preset botConfig)) else []);
                    source' = (if cfg_preset botConfig \<noteq> []
                               then Some (source (parsePresetName (cfg_preset botConfig)))
                               else None)
                in if source' = Some Character
                   then (Inr STOP, options, configureCharacterPlugin session presetName w)
                   else
                     (let options1 = options\<lparr>charonBotConfig :=
                             Some \<lparr>stash_botId = bid, stash_preset = presetName,
                                   stash_model = cfg_model botConfig,
                                   stash_chatMode = or_else (cfg_chatMode botConfig) ''chat''\<rparr>\<rparr>
                      in if truthy (room_resolve_name options) then
                           (case findBotSpecificRoom (template (room_resolve_name options)) bid w of
                              Some botSpecificRoom \<Rightarrow>
                                (Inr CONTINUE, options1\<lparr>room := Some botSpecificRoom\<rparr>, w)
                            | None \<Rightarrow> (Inr CONTINUE, options1, w))
                         else
                           (case getOrCreateBotSpecificRoom session bid botConfig env w of
                              (Inl e, w1) \<Rightarrow> (Inl e, options1, w1)
                            | (Inr botRoom, w1) \<Rightarrow>
                                (Inr CONTINUE, options1\<lparr>room := Some botRoom\<rparr>, w1)))))"

text \<open>
  The second middleware, \<open>charon_fix_room_auto_update\<close>, registered after
  \<open>resolve_room\<close>, in its three steps: the test \<open>isRoomForBot\<close>, the switch to the
  right room, and the repair of the fields.
\<close>

definition isRoomForBot :: "Room \<Rightarrow> string \<Rightarrow> bool" where
  "isRoomForBot r bid = startsWith (conversationId r) (''bot_'' @ bid @ ''_'')"

definition switch_room ::
  "BotPersonaConfig list \<Rightarrow> Session \<Rightarrow> Env \<Rightarrow> CharonBotConfig \<Rightarrow> Room \<Rightarrow> Options \<Rightarrow> world
     \<Rightarrow> (db_error + Options) \<times> world" where
  "switch_room config session env cbc r options w =
     (if \<not> isRoomForBot r (stash_botId cbc) then
        (case getBotConfig config (stash_botId cbc) of
           None \<Rightarrow> (Inr options, w)
         | Some botConfig \<Rightarrow>
             (case getOrCreateBotSpecificRoom session (stash_botId cbc) botConfig env w of
                (Inl e, w1) \<Rightarrow> (Inl e, w1)
              | (Inr correctRoom, w1) \<Rightarrow> (Inr (options\<lparr>room := Some correctRoom\<rparr>), w1)))
      else (Inr options, w))"

definition fixedRoom_of :: "CharonBotConfig \<Rightarrow> Room \<Rightarrow> Room \<times> bool" where
  \<comment> \<open>\<open>fixedRoom\<close> and \<open>needsFix\<close> after the three tests\<close>
  "fixedRoom_of cbc currentRoom =
     (let fixedRoom = currentRoom;
          needsFix = False;
          (fixedRoom, needsFix) =
            (if stash_preset cbc \<noteq> [] \<and> preset currentRoom \<noteq> Some (stash_preset cbc)
             then (fixedRoom\<lparr>preset := Some (stash_preset cbc)\<rparr>, True)
             else (fixedRoom, needsFix));
          (fixedRoom, needsFix) =
            (if stash_model cbc \<noteq> [] \<and> model currentRoom \<noteq> Some (stash_model cbc)
             then (fixedRoom\<lparr>model := Some (stash_model cbc)\<rparr>, True)
             else (fixedRoom, needsFix));
          (fixedRoom, needsFix) =
            (if chatMode currentRoom \<noteq> Some (stash_chatMode cbc)
             then (fixedRoom\<lparr>chatMode := Some (stash_chatMode cbc)\<rparr>, True)
             else (fixedRoom, needsFix))
      in (fixedRoom, needsFix))"

definition fix_room ::
  "CharonBotConfig \<Rightarrow> Env \<Rightarrow> Options \<Rightarrow> world
     \<Rightarrow> (db_error + ChainMiddlewareRunStatus) \<times> Options \<times> world" where
  "fix_room cbc env options w =
     (case room options of
        None \<Rightarrow> (Inr CONTINUE, options, w)
      | Some currentRoom \<Rightarrow>
          (case fixedRoom_of cbc currentRoom of
             (fixedRoom, needsFix) \<Rightarrow>
               if needsFix then
                 (let fixedRoom' = fixedRoom\<lparr>updatedTime := date_fix env\<rparr> in
                  case db_upsert_room fixedRoom' w of
                    Inl e \<Rightarrow> (Inl e, options, w)
                  | Inr w1 \<Rightarrow> (Inr CONTINUE, options\<lparr>room := Some fixedRoom'\<rparr>, w1))
               else (Inr CONTINUE, options, w)))"

definition charon_fix_room_auto_update ::
  "BotPersonaConfig list \<Rightarrow> Session \<Rightarrow> Env \<Rightarrow> Options \<Rightarrow> world
     \<Rightarrow> (db_error + ChainMiddlewareRunStatus) \<times> Options \<times> world" where
  "charon_fix_room_auto_update config session env options w =
     (case charonBotConfig options of
        None \<Rightarrow> (Inr CONTINUE, options, w)
      | Some cbc \<Rightarrow>
          (case room options of
             None \<Rightarrow> (Inr CONTINUE, options, w)
           | Some r \<Rightarrow>
               (case switch_room config session env cbc r options w of
                  (Inl e, w1) \<Rightarrow> (Inl e, options, w1)
                | (Inr options1, w1) \<Rightarrow> fix_room cbc env options1 w1)))"

section \<open>interceptors/room.ts\<close>

definition template_room_prefix :: string where
  \<comment> \<open>the four characters and the underscore before the bot's id in a template room's name, in UTF-8\<close>
  "template_room_prefix =
     [CHR 0xE6, CHR 0xA8, CHR 0xA1, CHR 0xE6, CHR 0x9D, CHR 0xBF,
      CHR 0xE6, CHR 0x88, CHR 0xBF, CHR 0xE9, CHR 0x97, CHR 0xB4, CHR ''_'']"

definition templateRoomOptions :: "BotPersonaConfig \<Rightarrow> CreateRoomOptions" where
  \<comment> \<open>the argument \<open>createTemplateRoomForBot\<close> passes to \<open>createRoom\<close>\<close>
  "templateRoomOptions botConfig =
     \<lparr>opt_botId = botId botConfig,
      opt_roomName = template_room_prefix @ botId botConfig,
      opt_roomMasterId = snd (parseBotId (botId botConfig)),
      opt_guildId = None,
      opt_visibility = ''template_clone'',
      opt_preset = Some (cfg_preset botConfig),
      opt_model = Some (cfg_model botConfig),
      opt_chatMode = Some (or_else (cfg_chatMode botConfig) ''chat'')\<rparr>"

definition createTemplateRoomForBot :: "BotPersonaConfig \<Rightarrow> Env \<Rightarrow> world \<Rightarrow> world" where
  "createTemplateRoomForBot botConfig env w =
     (let bid = botId botConfig;
          existingRooms = filter (\<lambda>r. roomName r = template_room_prefix @ bid) (chathub_room w)
      in case existingRooms of
           r # _ \<Rightarrow> setBotStatus bid (\<lambda>st. st\<lparr>templateRoomId := Some (roomId r)\<rparr>) w
         | [] \<Rightarrow>
             if source (parsePresetName (cfg_preset botConfig)) = Character
             then setBotStatus bid (\<lambda>st. st\<lparr>initialized := True\<rparr>) w
             else
               (case createRoom (templateRoomOptions botConfig) env w of
                  (Inl e, w1) \<Rightarrow> setBotStatus bid (\<lambda>st. st\<lparr>status_error := Some e\<rparr>) w1
                | (Inr newRoom, w1) \<Rightarrow>
                    setBotStatus bid (\<lambda>st. st\<lparr>templateRoomId := Some (roomId newRoom)\<rparr>) w1))"

definition handleBotStatusUpdate ::
  "bool \<Rightarrow> BotPersonaConfig list \<Rightarrow> string \<Rightarrow> string option \<Rightarrow> Env \<Rightarrow> world \<Rightarrow> world" where
  \<comment> \<open>the first argument is \<open>config.autoCreateTemplateRooms\<close>; then \<open>bot.platform\<close>, \<open>bot.selfId\<close>\<close>
  "handleBotStatusUpdate autoCreateTemplateRooms config pf sid env w =
     (let bid = getBotId pf sid in
      case getBotConfig config bid of
        None \<Rightarrow> w
      | Some botConfig \<Rightarrow>
          if \<not> enabled botConfig then w
          else if (case botStatusMap w bid of None \<Rightarrow> False | Some st \<Rightarrow> initialized st) then w
          else
            (let w1 = (if autoCreateTemplateRooms
                       then createTemplateRoomForBot botConfig env w else w)
             in setBotStatus bid (\<lambda>st. st\<lparr>initialized := True\<rparr>) w1))"

section \<open>interceptors/memory.ts\<close>

record LayerConfig =
  layer_session :: "Session option"
  layer_userId :: "string option"
  layer_guildId :: "string option"

text \<open>
  The handler of \<open>chatluna-long-memory/init-layer\<close>; its first argument is
  \<open>config.isolateLongMemory\<close>. It reads and writes the layer only.
\<close>

definition init_layer :: "bool \<Rightarrow> LayerConfig \<Rightarrow> LayerConfig" where
  "init_layer isolateLongMemory layerConfig =
     (if \<not> isolateLongMemory then layerConfig
      else
        (let botId' = (case layer_session layerConfig of
                         None \<Rightarrow> None
                       | Some session \<Rightarrow>
                           (case bot_selfId session of
                              Some x \<Rightarrow> Some x
                            | None \<Rightarrow> selfId session))
         in if \<not> truthy botId' then layerConfig
            else
              (let originalUserId = layer_userId layerConfig;
                   originalGuildId = layer_guildId layerConfig;
                   layerConfig1 = (if truthy originalUserId
                                   then layerConfig\<lparr>layer_userId :=
                                          Some (template botId' @ ''_'' @ template originalUserId)\<rparr>
                                   else layerConfig)
               in if truthy originalGuildId
                  then layerConfig1\<lparr>layer_guildId :=
                         Some (template botId' @ ''_'' @ template originalGuildId)\<rparr>
                  else layerConfig1)))"

section \<open>The specification's find-or-create, for comparison\<close>

text \<open>
  Step 4 of the resolver in the specification's words: the rooms the user is a member
  of, the candidates among them, the tie-break by scope. The candidates are a
  parameter: the specification takes the rooms whose key embeds the identity's id
  (\<open>candidates_by_key\<close>); \<open>candidates_by_name\<close> takes those whose name carries the id
  in parentheses.
\<close>

definition membership_rooms :: "Session \<Rightarrow> world \<Rightarrow> Room list" where
  "membership_rooms session w =
     filter (\<lambda>r. roomId r \<in> set (map member_roomId
                    (filter (\<lambda>m. member_userId m = Some (userId session))
                       (chathub_room_member w))))
       (chathub_room w)"

definition candidates_by_key :: "Session \<Rightarrow> string \<Rightarrow> world \<Rightarrow> Room list" where
  "candidates_by_key session bid w =
     filter (\<lambda>r. str_includes (conversationId r) bid) (membership_rooms session w)"

definition candidates_by_name :: "Session \<Rightarrow> string \<Rightarrow> world \<Rightarrow> Room list" where
  "candidates_by_name session bid w =
     filter (\<lambda>r. str_includes (roomName r) (bot_tag bid)) (membership_rooms session w)"

definition associated_with_group :: "Session \<Rightarrow> world \<Rightarrow> Room \<Rightarrow> bool" where
  "associated_with_group session w r =
     (roomId r \<in> set (map group_roomId
         (filter (\<lambda>g. Some (group_groupId g) = guildId session)
            (chathub_room_group_member w))))"

definition tie_break :: "Session \<Rightarrow> world \<Rightarrow> Room list \<Rightarrow> Room option" where
  "tie_break session w cands =
     (if \<not> isDirect session then
        (case find (\<lambda>r. associated_with_group session w r
                        \<and> visibility r = Some ''template_clone'') cands of
           Some r \<Rightarrow> Some r
         | None \<Rightarrow> find (associated_with_group session w) cands)
      else
        (case find (\<lambda>r. visibility r = Some ''private''
                        \<and> roomMasterId r = Some (userId session)) cands of
           Some r \<Rightarrow> Some r
         | None \<Rightarrow>
             (case find (\<lambda>r. visibility r = Some ''private'') cands of
                Some r \<Rightarrow> Some r
              | None \<Rightarrow> (case cands of [] \<Rightarrow> None | r # _ \<Rightarrow> Some r))))"

definition find_or_create_spec ::
  "(Session \<Rightarrow> string \<Rightarrow> world \<Rightarrow> Room list) \<Rightarrow> Session \<Rightarrow> string \<Rightarrow> BotPersonaConfig
     \<Rightarrow> Env \<Rightarrow> world \<Rightarrow> (db_error + Room) \<times> world" where
  "find_or_create_spec cands session bid botConfig env w =
     (case tie_break session w (cands session bid w) of
        Some r \<Rightarrow> (Inr r, w)
      | None \<Rightarrow> createBotSpecificRoom session bid botConfig env w)"

section \<open>A scenario\<close>

text \<open>
  The identity \<open>disc:42\<close> with preset \<open>chatluna:helper\<close> and model \<open>vendorA/modelX\<close>, a
  direct message from user \<open>u1\<close> and a message of the same user in group \<open>g1\<close>, a store
  with no rows that accepts every write, and a room of the host's own.
\<close>

definition scn_config :: "BotPersonaConfig list" where
  "scn_config =
     [\<lparr>botId = ''disc:42'', enabled = True, cfg_preset = ''chatluna:helper'',
       cfg_model = ''vendorA/modelX'', cfg_chatMode = None\<rparr>]"

definition scn_direct :: Session where
  "scn_direct =
     \<lparr>bot_selfId = Some ''42'', selfId = Some ''42'', platform = ''disc'', userId = ''u1'',
      guildId = None, channelId = None, username = Some ''alice'', guild_name = None\<rparr>"

definition scn_group :: Session where
  "scn_group = scn_direct\<lparr>guildId := Some ''g1'', guild_name := Some ''lobby''\<rparr>"

definition scn_env :: Env where
  "scn_env = \<lparr>randomUUID = ''uuid-1'', date_create = 100, date_fix = 200\<rparr>"

definition scn_env2 :: Env where
  "scn_env2 = \<lparr>randomUUID = ''uuid-2'', date_create = 300, date_fix = 400\<rparr>"

definition scn_options :: Options where
  "scn_options = \<lparr>room = None, charonBotConfig = None, room_resolve_name = None\<rparr>"

definition scn_stash :: CharonBotConfig where
  "scn_stash =
     \<lparr>stash_botId = ''disc:42'', stash_preset = ''helper'',
      stash_model = ''vendorA/modelX'', stash_chatMode = ''chat''\<rparr>"

definition scn_world :: world where
  "scn_world =
     \<lparr>chathub_room = [], chathub_room_member = [], chathub_room_group_member = [],
      chathub_user = [], refuses = (\<lambda>_. None), written = [],
      characterConfig = None, botStatusMap = Map.empty\<rparr>"

definition scn_host_room :: Room where
  "scn_host_room =
     \<lparr>roomId = 7, roomName = ''lobby'', conversationId = ''host-key'',
      preset = Some ''sydney'', model = Some ''vendorB/modelY'', chatMode = Some ''chat'',
      visibility = Some ''public'', updatedTime = 50, roomMasterId = Some ''admin'',
      autoUpdate = Some True, password = None\<rparr>"

definition scn_bot_room :: Room where
  "scn_bot_room =
     \<lparr>roomId = 1, roomName = ''alice (disc:42)'', conversationId = ''bot_disc:42_uuid-0'',
      preset = Some ''sydney'', model = Some ''vendorA/modelX'', chatMode = Some ''chat'',
      visibility = Some ''private'', updatedTime = 60, roomMasterId = Some ''u1'',
      autoUpdate = Some False, password = Some []\<rparr>"

definition scn_member :: RoomMember where
  "scn_member =
     \<lparr>member_userId = Some ''u1'', member_roomId = 1, roomPermission = Some ''owner'',
      mute = None\<rparr>"

text \<open>A context bound to the bot's room, with a stash that declares no preset.\<close>

definition scn_stash_no_preset :: CharonBotConfig where
  "scn_stash_no_preset = scn_stash\<lparr>stash_preset := []\<rparr>"

definition scn_bound :: Options where
  "scn_bound = \<lparr>room = Some (scn_bot_room\<lparr>model := Some ''vendorB/modelY''\<rparr>),
                charonBotConfig = Some scn_stash_no_preset, room_resolve_name = None\<rparr>"

text \<open>
  A store that holds the host's room and the bot's room of user \<open>u1\<close>, a context the
  host has bound to its own room, and what the second middleware makes of them.
\<close>

definition scn_world_rooms :: world where
  "scn_world_rooms =
     scn_world\<lparr>chathub_room := [scn_host_room, scn_bot_room],
               chathub_room_member := [scn_member]\<rparr>"

definition scn_rebound :: Options where
  "scn_rebound =
     \<lparr>room = Some scn_host_room, charonBotConfig = Some scn_stash, room_resolve_name = None\<rparr>"

definition scn_fixed_room :: Room where
  "scn_fixed_room = scn_bot_room\<lparr>preset := Some ''helper'', updatedTime := 200\<rparr>"

definition scn_fixed :: Options where
  "scn_fixed = scn_rebound\<lparr>room := Some scn_fixed_room\<rparr>"

definition scn_world_fixed :: world where
  "scn_world_fixed =
     scn_world_rooms\<lparr>chathub_room := [scn_host_room, scn_fixed_room],
                     written := [UpsertRoom scn_fixed_room]\<rparr>"

text \<open>The bot whose status update creates a template room, and a context for the group message.\<close>

definition scn_created_room :: Room where
  "scn_created_room =
     \<lparr>roomId = 1, roomName = ''alice (disc:42)'', conversationId = ''bot_disc:42_uuid-1'',
      preset = Some ''helper'', model = Some ''vendorA/modelX'', chatMode = Some ''chat'',
      visibility = Some ''private'', updatedTime = 100, roomMasterId = Some ''u1'',
      autoUpdate = Some False, password = Some []\<rparr>"

text \<open>
  The identity's configuration switched off, and with neither preset nor model; a
  memory layer of the scenario's group message.
\<close>

definition scn_config_disabled :: "BotPersonaConfig list" where
  "scn_config_disabled = map (\<lambda>bot. bot\<lparr>enabled := False\<rparr>) scn_config"

definition scn_config_undeclared :: "BotPersonaConfig list" where
  "scn_config_undeclared = map (\<lambda>bot. bot\<lparr>cfg_preset := [], cfg_model := []\<rparr>) scn_config"

definition scn_layer :: LayerConfig where
  "scn_layer =
     \<lparr>layer_session = Some scn_group, layer_userId = Some ''u1'', layer_guildId = Some ''g1''\<rparr>"

text \<open>
  The scenario's bot room after the user renamed it: the key still carries the id,
  the name no longer does.
\<close>

definition scn_renamed_room :: Room where
  "scn_renamed_room = scn_bot_room\<lparr>roomName := ''my notes''\<rparr>"

definition scn_world_renamed :: world where
  "scn_world_renamed =
     scn_world\<lparr>chathub_room := [scn_renamed_room], chathub_room_member := [scn_member]\<rparr>"

text \<open>
  Two rooms of the bot that user \<open>u1\<close> is a member of, both associated with group
  \<open>g1\<close>: a public one and a clone of a template.
\<close>

definition scn_public_room :: Room where
  "scn_public_room =
     scn_bot_room\<lparr>roomId := 3, roomName := ''lobby (disc:42)'', visibility := Some ''public''\<rparr>"

definition scn_clone_room :: Room where
  "scn_clone_room = scn_public_room\<lparr>roomId := 4, visibility := Some ''template_clone''\<rparr>"

definition scn_world_group :: world where
  "scn_world_group =
     scn_world\<lparr>chathub_room := [scn_public_room, scn_clone_room],
               chathub_room_member :=
                 [scn_member\<lparr>member_roomId := 3\<rparr>, scn_member\<lparr>member_roomId := 4\<rparr>],
               chathub_room_group_member :=
                 [\<lparr>group_groupId = ''g1'', group_roomId = 3, roomVisibility = Some ''public''\<rparr>,
                  \<lparr>group_groupId = ''g1'', group_roomId = 4,
                   roomVisibility = Some ''template_clone''\<rparr>]\<rparr>"

text \<open>A store that answers the create of a membership row, or of a user row, with a uniqueness violation.\<close>

definition scn_world_member_exists :: world where
  "scn_world_member_exists =
     scn_world\<lparr>refuses := (\<lambda>c. if c = create_chathub_room_member
                                then Some UniqueConstraint else None)\<rparr>"

definition scn_world_user_exists :: world where
  "scn_world_user_exists =
     scn_world\<lparr>refuses := (\<lambda>c. if c = create_chathub_user
                                then Some UniqueConstraint else None)\<rparr>"

section \<open>Preset names\<close>

lemma segments_nonempty: "segments c s \<noteq> []"
  by (induction s) (auto split: list.splits)

lemma segments_no_sep: "c \<notin> set s \<Longrightarrow> segments c s = [s]"
  by (induction s) auto

lemma segments_append_sep:
  "c \<notin> set p \<Longrightarrow> segments c (p @ c # r) = p # segments c r"
  by (induction p) (auto split: list.splits)

lemma segments_hd_no_sep: "c \<notin> set (hd (segments c s))"
  by (induction s) (auto split: list.splits)

lemma parsePresetName_unprefixed:
  "CHR '':'' \<notin> set s \<Longrightarrow> parsePresetName s = \<lparr>name = s, source = ChatLuna\<rparr>"
  by (simp add: parsePresetName_def split_limit_def segments_no_sep)

lemma parsePresetName_prefixed:
  assumes "CHR '':'' \<notin> set r"
  shows "parsePresetName (source_tag src @ CHR '':'' # r) = \<lparr>name = r, source = src\<rparr>"
proof -
  have "CHR '':'' \<notin> set (source_tag src)" by (cases src) auto
  then have "segments CHR '':'' (source_tag src @ CHR '':'' # r) = [source_tag src, r]"
    using assms by (simp add: segments_append_sep segments_no_sep)
  then show ?thesis
    by (cases src) (simp_all add: parsePresetName_def split_limit_def)
qed

text \<open>
  C6, at the input \<open>chatluna:foo:bar\<close>: the prefix is a known source and the rest after
  the first separator is \<open>foo:bar\<close>, yet \<open>split(':', 2)\<close> keeps only the two first
  segments and the name returned is \<open>foo\<close>. The specification's reading returns
  \<open>foo:bar\<close> there.
\<close>

theorem parsePresetName_drops_after_second_separator:
  "parsePresetName ''chatluna:foo:bar'' = \<lparr>name = ''foo'', source = ChatLuna\<rparr>
   \<and> resolveName_spec ''chatluna:foo:bar'' = \<lparr>name = ''foo:bar'', source = ChatLuna\<rparr>"
  by (simp add: parsePresetName_def resolveName_spec_def split_limit_def)

section \<open>Lists of rooms: the first match, and replacing a row\<close>

lemma find_filter: "find P (filter Q xs) = find (\<lambda>x. Q x \<and> P x) xs"
  by (induction xs) auto

lemma find_Some_set: "find P xs = Some a \<Longrightarrow> a \<in> set xs \<and> P a"
  by (induction xs) (auto split: if_splits)

lemma find_None_set: "find P xs = None \<Longrightarrow> a \<in> set xs \<Longrightarrow> \<not> P a"
  by (induction xs) (auto split: if_splits)

lemma first_as_find: "(case xs of [] \<Rightarrow> None | r # _ \<Rightarrow> Some r) = find (\<lambda>_. True) xs"
  by (cases xs) auto

lemma find_replace_some:
  "find P xs = Some a \<Longrightarrow> P b \<Longrightarrow> roomId b = roomId a
     \<Longrightarrow> find P (map (replace_room b) xs) = Some b"
  by (induction xs) (auto simp add: replace_room_def split: if_splits)

lemma find_replace_none:
  "find P xs = None \<Longrightarrow> \<not> P b \<Longrightarrow> find P (map (replace_room b) xs) = None"
  by (induction xs) (auto simp add: replace_room_def split: if_splits)

lemma find_const_False: "find (\<lambda>_. False) xs = None"
  by (induction xs) auto

lemma selectedRoom_mem: "selectedRoom s bid w = Some r \<Longrightarrow> r \<in> set (chathub_room w)"
  by (auto simp add: selectedRoom_def Let_def find_filter first_as_find
        split: if_splits option.splits dest: find_Some_set)

lemma case_find_replace:
  assumes "a \<in> set xs" and "roomId b = roomId a" and "P b = P a" and "R b = R a"
      and "(case find P xs of Some r \<Rightarrow> Some r | None \<Rightarrow> find R xs) = Some a"
  shows "(case find P (map (replace_room b) xs) of Some r \<Rightarrow> Some r
          | None \<Rightarrow> find R (map (replace_room b) xs)) = Some b"
proof (cases "find P xs")
  case None
  with assms(5) have r: "find R xs = Some a" by simp
  have "\<not> P a" using None assms(1) by (rule find_None_set)
  then have "find P (map (replace_room b) xs) = None"
    using None assms(3) by (simp add: find_replace_none)
  moreover have "find R (map (replace_room b) xs) = Some b"
    using r assms(2,4) find_Some_set [OF r] by (simp add: find_replace_some)
  ultimately show ?thesis by simp
next
  case (Some x)
  with assms(5) have p: "find P xs = Some a" by simp
  then have "find P (map (replace_room b) xs) = Some b"
    using assms(2,3) find_Some_set [OF p] by (simp add: find_replace_some)
  then show ?thesis by simp
qed

lemma case_find_replace3:
  assumes "a \<in> set xs" and "roomId b = roomId a"
      and "P b = P a" and "R b = R a" and "T b = T a"
      and "(case find P xs of Some r \<Rightarrow> Some r
            | None \<Rightarrow> (case find R xs of Some r \<Rightarrow> Some r | None \<Rightarrow> find T xs)) = Some a"
  shows "(case find P (map (replace_room b) xs) of Some r \<Rightarrow> Some r
          | None \<Rightarrow> (case find R (map (replace_room b) xs) of Some r \<Rightarrow> Some r
                      | None \<Rightarrow> find T (map (replace_room b) xs))) = Some b"
proof (cases "find P xs")
  case None
  with assms(6) have r: "(case find R xs of Some r \<Rightarrow> Some r | None \<Rightarrow> find T xs) = Some a"
    by simp
  have "\<not> P a" using None assms(1) by (rule find_None_set)
  then have "find P (map (replace_room b) xs) = None"
    using None assms(3) by (simp add: find_replace_none)
  then show ?thesis
    using case_find_replace [OF assms(1,2,4,5) r] by simp
next
  case (Some x)
  with assms(6) have p: "find P xs = Some a" by simp
  then have "find P (map (replace_room b) xs) = Some b"
    using assms(2,3) find_Some_set [OF p] by (simp add: find_replace_some)
  then show ?thesis by simp
qed

lemma selectedRoom_rooms_only:
  assumes "chathub_room_member w' = chathub_room_member w"
      and "chathub_room_group_member w' = chathub_room_group_member w"
      and "chathub_room w' = map (replace_room b) (chathub_room w)"
      and "selectedRoom s bid w = Some a"
      and "roomId b = roomId a" "roomName b = roomName a"
      and "visibility b = visibility a" "roomMasterId b = roomMasterId a"
  shows "selectedRoom s bid w' = Some b"
proof -
  have mem: "a \<in> set (chathub_room w)" using assms(4) by (rule selectedRoom_mem)
  have ne: "0 < length (filter (\<lambda>m. member_userId m = Some (userId s)) (chathub_room_member w))"
    using assms(4) by (auto simp add: selectedRoom_def split: if_splits)
  show ?thesis
  proof (cases "isDirect s")
    case True
    show ?thesis
      using assms(4) ne True
      unfolding selectedRoom_def Let_def find_filter first_as_find assms(1,2,3)
      apply (simp only: if_True if_False not_True_eq_False)
      apply (erule case_find_replace3 [OF mem assms(5), rotated 3])
        apply (simp_all only: assms(5-8))
      done
  next
    case False
    show ?thesis
      using assms(4) ne False
      unfolding selectedRoom_def Let_def find_filter first_as_find assms(1,2,3)
      apply (simp only: if_True if_False not_False_eq_True)
      apply (erule case_find_replace [OF mem assms(5), rotated 2])
       apply (simp_all only: assms(5-8))
      done
  qed
qed

section \<open>The steps of the second middleware\<close>

lemma fixedRoom_of_fields:
  "fixedRoom_of cbc cur =
     (cur\<lparr>preset := (if stash_preset cbc \<noteq> [] \<and> preset cur \<noteq> Some (stash_preset cbc)
                      then Some (stash_preset cbc) else preset cur),
          model := (if stash_model cbc \<noteq> [] \<and> model cur \<noteq> Some (stash_model cbc)
                    then Some (stash_model cbc) else model cur),
          chatMode := (if chatMode cur \<noteq> Some (stash_chatMode cbc)
                       then Some (stash_chatMode cbc) else chatMode cur)\<rparr>,
      (stash_preset cbc \<noteq> [] \<and> preset cur \<noteq> Some (stash_preset cbc))
      \<or> (stash_model cbc \<noteq> [] \<and> model cur \<noteq> Some (stash_model cbc))
      \<or> chatMode cur \<noteq> Some (stash_chatMode cbc))"
  by (simp add: fixedRoom_of_def Let_def)

lemma fixedRoom_of_idem:
  "fixedRoom_of cbc cur = (fx, nf)
     \<Longrightarrow> fixedRoom_of cbc (fx\<lparr>updatedTime := t\<rparr>) = (fx\<lparr>updatedTime := t\<rparr>, False)"
  by (auto simp add: fixedRoom_of_fields split: if_splits)

lemma fixedRoom_of_noop: "fixedRoom_of cbc cur = (fx, False) \<Longrightarrow> fx = cur"
  by (auto simp add: fixedRoom_of_fields split: if_splits)

lemma fixedRoom_of_frame:
  "fixedRoom_of cbc cur = (fx, nf)
     \<Longrightarrow> roomId fx = roomId cur \<and> roomName fx = roomName cur
         \<and> conversationId fx = conversationId cur \<and> visibility fx = visibility cur
         \<and> roomMasterId fx = roomMasterId cur \<and> autoUpdate fx = autoUpdate cur
         \<and> password fx = password cur \<and> updatedTime fx = updatedTime cur"
  by (auto simp add: fixedRoom_of_fields)

lemma newRoom_isRoomForBot: "isRoomForBot (newRoom_of opts env w) (opt_botId opts)"
  by (simp add: isRoomForBot_def newRoom_of_def Let_def startsWith_def generateConversationId_def)

lemma createRoom_Inr:
  "createRoom opts env w = (Inr n, w') \<Longrightarrow> n = newRoom_of opts env w"
  by (auto simp add: createRoom_def Let_def split: sum.splits if_splits)

lemma botRoomOptions_botId: "opt_botId (botRoomOptions s bid bc) = bid"
  by (simp add: botRoomOptions_def Let_def)

lemma createBotSpecificRoom_Inr:
  assumes "createBotSpecificRoom s bid bc env w = (Inr n, w')"
  shows "n = newRoom_of (botRoomOptions s bid bc) env w"
  using assms
  by (auto simp add: createBotSpecificRoom_def split: sum.splits prod.splits
        dest!: createRoom_Inr)

lemma createBotSpecificRoom_isRoomForBot:
  assumes "createBotSpecificRoom s bid bc env w = (Inr n, w')"
  shows "isRoomForBot n bid"
  using newRoom_isRoomForBot [of "botRoomOptions s bid bc" env w]
    createBotSpecificRoom_Inr [OF assms]
  by (simp add: botRoomOptions_botId)

lemma getOrCreate_Inr:
  "getOrCreateBotSpecificRoom s bid bc env w = (Inr cur, wA)
     \<Longrightarrow> (selectedRoom s bid w = Some cur \<and> wA = w) \<or> isRoomForBot cur bid"
  by (auto simp add: getOrCreateBotSpecificRoom_def split: option.splits
        dest: createBotSpecificRoom_isRoomForBot)

lemma switch_room_Inr:
  assumes "switch_room config s env cbc r options w = (Inr oA, wA)"
  shows "(oA = options \<and> wA = w
            \<and> (isRoomForBot r (stash_botId cbc) \<or> getBotConfig config (stash_botId cbc) = None))
         \<or> (\<not> isRoomForBot r (stash_botId cbc)
             \<and> (\<exists>bc cur. getBotConfig config (stash_botId cbc) = Some bc
                   \<and> getOrCreateBotSpecificRoom s (stash_botId cbc) bc env w = (Inr cur, wA)
                   \<and> oA = options\<lparr>room := Some cur\<rparr>))"
  using assms
  by (auto simp add: switch_room_def split: if_splits option.splits sum.splits prod.splits)

lemma fix_room_stable:
  "room options = Some out \<Longrightarrow> fixedRoom_of cbc out = (out, False)
     \<Longrightarrow> fix_room cbc env options w = (Inr CONTINUE, options, w)"
  by (simp add: fix_room_def)

lemma fix_room_Inr:
  assumes "fix_room cbc env oA wA = (Inr st, o1, w1)" and "room oA = Some cur"
  shows "(fixedRoom_of cbc cur = (cur, False) \<and> o1 = oA \<and> w1 = wA)
       \<or> (\<exists>fx. fixedRoom_of cbc cur = (fx, True)
             \<and> db_upsert_room (fx\<lparr>updatedTime := date_fix env\<rparr>) wA = Inr w1
             \<and> o1 = oA\<lparr>room := Some (fx\<lparr>updatedTime := date_fix env\<rparr>)\<rparr>)"
  using assms
  by (auto simp add: fix_room_def Let_def split: prod.splits if_splits sum.splits
        dest: fixedRoom_of_noop)

lemma db_upsert_room_present:
  assumes "db_upsert_room b w = Inr w'" and "a \<in> set (chathub_room w)" and "roomId b = roomId a"
  shows "chathub_room w' = map (replace_room b) (chathub_room w)
       \<and> chathub_room_member w' = chathub_room_member w
       \<and> chathub_room_group_member w' = chathub_room_group_member w"
  using assms
  by (auto simp add: db_upsert_room_def split: option.splits)

lemma options_room_same: "room options = Some r \<Longrightarrow> options\<lparr>room := Some r\<rparr> = options"
  by simp

lemma switch_room_again:
  assumes "room options = Some out"
      and "isRoomForBot out (stash_botId cbc) \<or> getBotConfig config (stash_botId cbc) = None
           \<or> selectedRoom s (stash_botId cbc) w = Some out"
  shows "switch_room config s env cbc out options w = (Inr options, w)"
  using assms
  by (auto simp add: switch_room_def getOrCreateBotSpecificRoom_def split: option.splits)

text \<open>
  C3. A run of the second middleware that returned leaves a context and a store on
  which a further run, with the same configuration and session and any identifier
  and clock, returns \<open>CONTINUE\<close> and changes neither: the room bound and its fields
  are the same, and the store, its list of accepted writes included, is the same, so
  no upsert took place.
\<close>

theorem reconciliation_idempotent:
  assumes run1: "charon_fix_room_auto_update config s env options w = (Inr st, options1, w1)"
  shows "charon_fix_room_auto_update config s env' options1 w1 = (Inr CONTINUE, options1, w1)"
proof (cases "charonBotConfig options")
  case None
  with run1 show ?thesis by (simp add: charon_fix_room_auto_update_def)
next
  case (Some cbc)
  note stash = this
  show ?thesis
  proof (cases "room options")
    case None
    with run1 stash show ?thesis by (simp add: charon_fix_room_auto_update_def)
  next
    case (Some r)
    let ?bid = "stash_botId cbc"
    from run1 stash Some obtain oA wA
      where sw: "switch_room config s env cbc r options w = (Inr oA, wA)"
        and fx: "fix_room cbc env oA wA = (Inr st, options1, w1)"
      by (auto simp add: charon_fix_room_auto_update_def split: prod.splits sum.splits)
    from switch_room_Inr [OF sw] Some stash
    obtain cur where cur: "room oA = Some cur" and stashA: "charonBotConfig oA = Some cbc"
      and origin: "isRoomForBot cur ?bid \<or> getBotConfig config ?bid = None
                   \<or> (selectedRoom s ?bid w = Some cur \<and> wA = w)"
      by (auto dest: getOrCreate_Inr)
    have "\<exists>out. room options1 = Some out \<and> charonBotConfig options1 = Some cbc
            \<and> fixedRoom_of cbc out = (out, False)
            \<and> conversationId out = conversationId cur
            \<and> (selectedRoom s ?bid wA = Some cur \<longrightarrow> selectedRoom s ?bid w1 = Some out)"
      using fix_room_Inr [OF fx cur]
    proof
      assume "fixedRoom_of cbc cur = (cur, False) \<and> options1 = oA \<and> w1 = wA"
      then show ?thesis using cur stashA by auto
    next
      assume "\<exists>fx. fixedRoom_of cbc cur = (fx, True)
                \<and> db_upsert_room (fx\<lparr>updatedTime := date_fix env\<rparr>) wA = Inr w1
                \<and> options1 = oA\<lparr>room := Some (fx\<lparr>updatedTime := date_fix env\<rparr>)\<rparr>"
      then obtain fx where f: "fixedRoom_of cbc cur = (fx, True)"
        and up: "db_upsert_room (fx\<lparr>updatedTime := date_fix env\<rparr>) wA = Inr w1"
        and o1: "options1 = oA\<lparr>room := Some (fx\<lparr>updatedTime := date_fix env\<rparr>)\<rparr>"
        by blast
      let ?out = "fx\<lparr>updatedTime := date_fix env\<rparr>"
      note fr = fixedRoom_of_frame [OF f]
      have "selectedRoom s ?bid w1 = Some ?out" if selA: "selectedRoom s ?bid wA = Some cur"
      proof -
        have "cur \<in> set (chathub_room wA)" using selA by (rule selectedRoom_mem)
        from db_upsert_room_present [OF up this] fr
        have "chathub_room w1 = map (replace_room ?out) (chathub_room wA)"
          and "chathub_room_member w1 = chathub_room_member wA"
          and "chathub_room_group_member w1 = chathub_room_group_member wA"
          by simp_all
        from selectedRoom_rooms_only [OF this(2,3,1) selA] fr show ?thesis by simp
      qed
      then show ?thesis
        using o1 stashA fr fixedRoom_of_idem [OF f, of "date_fix env"] by simp
    qed
    then obtain out where out: "room options1 = Some out"
      and stash1: "charonBotConfig options1 = Some cbc"
      and stable: "fixedRoom_of cbc out = (out, False)"
      and conv: "conversationId out = conversationId cur"
      and sel: "selectedRoom s ?bid wA = Some cur \<Longrightarrow> selectedRoom s ?bid w1 = Some out"
      by blast
    have "isRoomForBot out ?bid \<or> getBotConfig config ?bid = None
          \<or> selectedRoom s ?bid w1 = Some out"
      using origin conv sel by (auto simp add: isRoomForBot_def)
    then have "switch_room config s env' cbc out options1 w1 = (Inr options1, w1)"
      using out by (rule switch_room_again [rotated])
    then show ?thesis
      using out stash1 fix_room_stable [OF out stable]
      by (simp add: charon_fix_room_auto_update_def)
  qed
qed

section \<open>The rooms a run creates\<close>

lemma new_writes_append: "written w' = written w @ ws \<Longrightarrow> new_writes w w' = ws"
  by (simp add: new_writes_def)

lemma created_rooms_append: "created_rooms (xs @ ys) = created_rooms xs @ created_rooms ys"
  by (induction xs rule: created_rooms.induct) auto

lemma newRoom_of_key:
  "conversationId (newRoom_of opts env w)
     = ''bot_'' @ opt_botId opts @ ''_'' @ randomUUID env"
  by (simp add: newRoom_of_def Let_def generateConversationId_def)

lemma newRoom_of_autoUpdate: "autoUpdate (newRoom_of opts env w) = Some False"
  by (simp add: newRoom_of_def Let_def)

lemma createRoom_writes:
  assumes "createRoom opts env w = (res, w')"
  shows "\<exists>ws. written w' = written w @ ws
            \<and> set (created_rooms ws) \<subseteq> {newRoom_of opts env w}"
  using assms
  by (auto simp add: createRoom_def Let_def db_create_room_def db_create_member_def
        db_create_group_member_def split: option.splits if_splits)

lemma createBotSpecificRoom_writes:
  assumes "createBotSpecificRoom s bid bc env w = (res, w')"
  shows "\<exists>ws. written w' = written w @ ws
            \<and> set (created_rooms ws) \<subseteq> {newRoom_of (botRoomOptions s bid bc) env w}"
proof (cases "createRoom (botRoomOptions s bid bc) env w")
  case (Pair r1 w1)
  from createRoom_writes [OF Pair] obtain ws
    where ws: "written w1 = written w @ ws"
      "set (created_rooms ws) \<subseteq> {newRoom_of (botRoomOptions s bid bc) env w}"
    by blast
  show ?thesis
    using assms Pair ws
    by (auto simp add: createBotSpecificRoom_def db_create_user_def created_rooms_append
          split: sum.splits option.splits)
qed

lemma getOrCreate_writes:
  assumes "getOrCreateBotSpecificRoom s bid bc env w = (res, w')"
  shows "\<exists>ws. written w' = written w @ ws
            \<and> set (created_rooms ws) \<subseteq> {newRoom_of (botRoomOptions s bid bc) env w}"
  using assms createBotSpecificRoom_writes [of s bid bc env w res w']
  by (auto simp add: getOrCreateBotSpecificRoom_def split: option.splits)

lemma configureCharacterPlugin_written:
  "written (configureCharacterPlugin s p w) = written w"
  by (simp add: configureCharacterPlugin_def Let_def split: option.splits)

lemma getOrCreate_created:
  assumes "getOrCreateBotSpecificRoom s bid bc env w = (res, w')"
  shows "\<exists>ws. written w' = written w @ ws
            \<and> (\<forall>r\<in>set (created_rooms ws).
                  conversationId r = ''bot_'' @ bid @ ''_'' @ randomUUID env
                  \<and> autoUpdate r = Some False)"
proof -
  from getOrCreate_writes [OF assms] obtain ws
    where "written w' = written w @ ws"
      and "set (created_rooms ws) \<subseteq> {newRoom_of (botRoomOptions s bid bc) env w}"
    by blast
  then show ?thesis
    using newRoom_of_key [of "botRoomOptions s bid bc" env w]
      newRoom_of_autoUpdate [of "botRoomOptions s bid bc" env w]
    by (auto simp add: botRoomOptions_botId)
qed

lemma resolve_created:
  assumes "charon_resolve_bot_room config s env options w = (res, options1, w1)"
  shows "\<exists>ws. written w1 = written w @ ws
            \<and> (\<forall>r\<in>set (created_rooms ws).
                  conversationId r = ''bot_'' @ session_botId s @ ''_'' @ randomUUID env
                  \<and> autoUpdate r = Some False)"
proof (cases "w1 = w \<or> written w1 = written w")
  case True
  then show ?thesis by auto
next
  case False
  then obtain bc r where "getOrCreateBotSpecificRoom s (session_botId s) bc env w = (r, w1)"
    using assms
    by (auto simp add: charon_resolve_bot_room_def Let_def configureCharacterPlugin_written
          split: option.splits if_splits prod.splits sum.splits)
  then show ?thesis by (rule getOrCreate_created)
qed

lemma switch_room_created:
  assumes "switch_room config s env cbc r options w = (res, w1)"
  shows "\<exists>ws. written w1 = written w @ ws
            \<and> (\<forall>r\<in>set (created_rooms ws).
                  conversationId r = ''bot_'' @ stash_botId cbc @ ''_'' @ randomUUID env
                  \<and> autoUpdate r = Some False)"
proof (cases "w1 = w")
  case True
  then show ?thesis by auto
next
  case False
  then obtain bc r where "getOrCreateBotSpecificRoom s (stash_botId cbc) bc env w = (r, w1)"
    using assms
    by (auto simp add: switch_room_def split: option.splits if_splits prod.splits sum.splits)
  then show ?thesis by (rule getOrCreate_created)
qed

lemma fix_room_writes:
  assumes "fix_room cbc env options w = (res, options1, w1)"
  shows "\<exists>ws. written w1 = written w @ ws \<and> created_rooms ws = []"
  using assms
  by (auto simp add: fix_room_def Let_def db_upsert_room_def
        split: option.splits prod.splits if_splits)

lemma fix_created:
  assumes "charon_fix_room_auto_update config s env options w = (res, options1, w1)"
      and "charonBotConfig options = Some cbc"
  shows "\<exists>ws. written w1 = written w @ ws
            \<and> (\<forall>r\<in>set (created_rooms ws).
                  conversationId r = ''bot_'' @ stash_botId cbc @ ''_'' @ randomUUID env
                  \<and> autoUpdate r = Some False)"
proof (cases "room options")
  case None
  then show ?thesis using assms by (auto simp add: charon_fix_room_auto_update_def)
next
  case (Some r)
  obtain rA wA where sw: "switch_room config s env cbc r options w = (rA, wA)"
    by (cases "switch_room config s env cbc r options w")
  from switch_room_created [OF sw] obtain ws
    where ws: "written wA = written w @ ws"
      "\<forall>r\<in>set (created_rooms ws).
          conversationId r = ''bot_'' @ stash_botId cbc @ ''_'' @ randomUUID env
          \<and> autoUpdate r = Some False"
    by blast
  show ?thesis
  proof (cases rA)
    case (Inl e)
    then show ?thesis
      using assms Some sw ws by (auto simp add: charon_fix_room_auto_update_def)
  next
    case (Inr oA)
    then have "fix_room cbc env oA wA = (res, options1, w1)"
      using assms Some sw by (simp add: charon_fix_room_auto_update_def)
    from fix_room_writes [OF this] obtain ws' where
      "written w1 = written wA @ ws'" "created_rooms ws' = []" by blast
    then show ?thesis
      using ws by (intro exI [of _ "ws @ ws'"]) (simp add: created_rooms_append)
  qed
qed

lemma setBotStatus_written: "written (setBotStatus bid f w) = written w"
  by (simp add: setBotStatus_def Let_def)

lemma getBotConfig_botId: "getBotConfig config bid = Some bc \<Longrightarrow> botId bc = bid"
  by (auto simp add: getBotConfig_def dest: find_Some_set)

lemma createTemplateRoomForBot_created:
  "\<exists>ws. written (createTemplateRoomForBot bc env w) = written w @ ws
            \<and> (\<forall>r\<in>set (created_rooms ws).
                  conversationId r = ''bot_'' @ botId bc @ ''_'' @ randomUUID env
                  \<and> autoUpdate r = Some False)"
proof (cases "createRoom (templateRoomOptions bc) env w")
  case (Pair r1 w1)
  from createRoom_writes [OF Pair] obtain ws
    where ws: "written w1 = written w @ ws"
      "set (created_rooms ws) \<subseteq> {newRoom_of (templateRoomOptions bc) env w}"
    by blast
  have "opt_botId (templateRoomOptions bc) = botId bc"
    by (simp add: templateRoomOptions_def)
  then have "\<forall>r\<in>set (created_rooms ws).
                  conversationId r = ''bot_'' @ botId bc @ ''_'' @ randomUUID env
                  \<and> autoUpdate r = Some False"
    using ws(2) newRoom_of_key [of "templateRoomOptions bc" env w]
      newRoom_of_autoUpdate [of "templateRoomOptions bc" env w]
    by auto
  then show ?thesis
    using Pair ws(1)
    by (auto simp add: createTemplateRoomForBot_def Let_def setBotStatus_written
          split: list.splits sum.splits)
qed

lemma handleBotStatusUpdate_created:
  "\<exists>ws. written (handleBotStatusUpdate auto config pf sid env w) = written w @ ws
            \<and> (\<forall>r\<in>set (created_rooms ws).
                  conversationId r = ''bot_'' @ getBotId pf sid @ ''_'' @ randomUUID env
                  \<and> autoUpdate r = Some False)"
proof (cases "getBotConfig config (getBotId pf sid)")
  case None
  then show ?thesis by (simp add: handleBotStatusUpdate_def)
next
  case (Some bc)
  from createTemplateRoomForBot_created [of bc env w] getBotConfig_botId [OF Some]
  show ?thesis
    using Some
    by (auto simp add: handleBotStatusUpdate_def Let_def setBotStatus_written)
qed

section \<open>Evaluating the scenario, and the field repair\<close>

lemmas scn_defs = scn_config_def scn_direct_def scn_group_def scn_env_def scn_env2_def
  scn_options_def scn_stash_def scn_world_def scn_host_room_def scn_bot_room_def scn_member_def

lemmas run_defs = charon_resolve_bot_room_def charon_fix_room_auto_update_def switch_room_def
  fix_room_def fixedRoom_of_def getOrCreateBotSpecificRoom_def selectedRoom_def
  createBotSpecificRoom_def botRoomOptions_def createRoom_def newRoom_of_def
  db_create_room_def db_create_member_def db_create_group_member_def db_create_user_def
  db_upsert_room_def replace_room_def session_botId_def getBotId_def getBotConfig_def
  parsePresetName_def split_limit_def generateConversationId_def isDirect_def bot_tag_def
  isRoomForBot_def startsWith_def str_includes_def template_def truthy_def or_else_def
  findBotSpecificRoom_def configureCharacterPlugin_def new_writes_def sublist_code

text \<open>
  C1. In a run of the second middleware with a stash and a bound room that returns,
  let \<open>cur\<close> be the room bound after the switch step (the bound room itself, or the
  room it was switched to). The room bound at the end has the stashed preset when that
  is not empty and differs from \<open>cur\<close>'s, else \<open>cur\<close>'s preset; the same for the model;
  and the stashed chatMode when \<open>cur\<close>'s differs, else \<open>cur\<close>'s. With an empty stashed
  preset or model the field is \<open>cur\<close>'s.
\<close>

theorem reconciliation_corrects_fields:
  assumes "charonBotConfig options = Some cbc" and "room options = Some bound"
      and "switch_room config s env cbc bound options w = (Inr optionsA, wA)"
      and "room optionsA = Some cur"
      and "charon_fix_room_auto_update config s env options w = (Inr st, options1, w1)"
  shows "\<exists>out. room options1 = Some out
           \<and> preset out = (if stash_preset cbc \<noteq> [] \<and> preset cur \<noteq> Some (stash_preset cbc)
                            then Some (stash_preset cbc) else preset cur)
           \<and> model out = (if stash_model cbc \<noteq> [] \<and> model cur \<noteq> Some (stash_model cbc)
                           then Some (stash_model cbc) else model cur)
           \<and> chatMode out = (if chatMode cur \<noteq> Some (stash_chatMode cbc)
                              then Some (stash_chatMode cbc) else chatMode cur)
           \<and> (stash_preset cbc = [] \<longrightarrow> preset out = preset cur)
           \<and> (stash_model cbc = [] \<longrightarrow> model out = model cur)"
proof -
  have fx: "fix_room cbc env optionsA wA = (Inr st, options1, w1)"
    using assms(1,2,3,5) by (simp add: charon_fix_room_auto_update_def)
  from fix_room_Inr [OF fx assms(4)] show ?thesis
  proof
    assume "fixedRoom_of cbc cur = (cur, False) \<and> options1 = optionsA \<and> w1 = wA"
    then show ?thesis
      using assms(4) by (auto simp add: fixedRoom_of_fields split: if_splits)
  next
    assume "\<exists>fx. fixedRoom_of cbc cur = (fx, True)
              \<and> db_upsert_room (fx\<lparr>updatedTime := date_fix env\<rparr>) wA = Inr w1
              \<and> options1 = optionsA\<lparr>room := Some (fx\<lparr>updatedTime := date_fix env\<rparr>)\<rparr>"
    then show ?thesis
      by (auto simp add: fixedRoom_of_fields)
  qed
qed

theorem reconciliation_corrects_fields_witness:
  "\<exists>out. room (fst (snd (charon_fix_room_auto_update scn_config scn_direct scn_env scn_bound
                            scn_world))) = Some out
      \<and> preset out = Some ''sydney'' \<and> model out = Some ''vendorA/modelX''
      \<and> chatMode out = Some ''chat''"
proof -
  let ?cur = "scn_bot_room\<lparr>model := Some ''vendorB/modelY''\<rparr>"
  have 1: "charonBotConfig scn_bound = Some scn_stash_no_preset"
    and 2: "room scn_bound = Some ?cur"
    by (simp_all add: scn_bound_def)
  have 3: "switch_room scn_config scn_direct scn_env scn_stash_no_preset ?cur scn_bound scn_world
             = (Inr scn_bound, scn_world)"
    by (simp add: scn_defs run_defs scn_stash_no_preset_def)
  obtain o1 w1 where 5: "charon_fix_room_auto_update scn_config scn_direct scn_env scn_bound
                           scn_world = (Inr CONTINUE, o1, w1)"
    by (simp add: scn_defs run_defs scn_stash_no_preset_def scn_bound_def Let_def)
  from reconciliation_corrects_fields [OF 1 2 3 2 5] show ?thesis
    unfolding 5 by (auto simp add: scn_bot_room_def scn_stash_def scn_stash_no_preset_def)
qed

section \<open>Idempotence at the scenario, and the switch of rooms\<close>

lemma scn_first_run:
  "charon_fix_room_auto_update scn_config scn_direct scn_env scn_rebound scn_world_rooms
     = (Inr CONTINUE, scn_fixed, scn_world_fixed)"
  by (simp add: scn_defs run_defs scn_world_rooms_def scn_rebound_def scn_fixed_room_def
        scn_fixed_def scn_world_fixed_def Let_def)

theorem reconciliation_idempotent_witness:
  "charon_fix_room_auto_update scn_config scn_direct scn_env scn_rebound scn_world_rooms
     = (Inr CONTINUE, scn_fixed, scn_world_fixed)
   \<and> charon_fix_room_auto_update scn_config scn_direct scn_env2 scn_fixed scn_world_fixed
     = (Inr CONTINUE, scn_fixed, scn_world_fixed)"
  using reconciliation_idempotent [OF scn_first_run, of scn_env2] scn_first_run by simp

lemma resolve_stash:
  assumes "charon_resolve_bot_room config s env options w = (res, options1, w1)"
      and "charonBotConfig options = None" and "charonBotConfig options1 = Some cbc"
  shows "stash_botId cbc = session_botId s
         \<and> (\<exists>bc. getBotConfig config (stash_botId cbc) = Some bc \<and> enabled bc)"
  using assms
  by (auto simp add: charon_resolve_bot_room_def Let_def
        split: option.splits if_splits prod.splits sum.splits)

lemma fix_room_same_record:
  assumes "fix_room cbc env options w = (res, options1, w1)" and "room options = Some r"
  shows "map_option roomId (room options1) = Some (roomId r)
       \<and> map_option conversationId (room options1) = Some (conversationId r)"
  using assms
  by (auto simp add: fix_room_def Let_def fixedRoom_of_fields split: if_splits sum.splits)

text \<open>
  C2. In a run with a stash and a bound room: when the bound room's \<open>conversationId\<close>
  does not start with \<open>bot_<botId>_\<close>, and the stashed identity's configuration is
  registered (the first middleware stashes for no other identity, \<open>resolve_stash\<close>),
  the run calls \<open>getOrCreateBotSpecificRoom\<close>, the find-or-create of the first
  middleware, and repairs the fields on the context bound to the room it returned, or
  throws what it threw; when the \<open>conversationId\<close> starts with it, the run repairs
  the fields on the context as it is, and the room bound at the end has the bound
  room's \<open>roomId\<close> and \<open>conversationId\<close>.
\<close>

theorem reconciliation_switches_room:
  assumes "charonBotConfig options = Some cbc" and "room options = Some bound"
  shows "(\<not> startsWith (conversationId bound) (''bot_'' @ stash_botId cbc @ ''_'') \<longrightarrow>
          getBotConfig config (stash_botId cbc) = Some botConfig \<longrightarrow>
            charon_fix_room_auto_update config s env options w =
              (case getOrCreateBotSpecificRoom s (stash_botId cbc) botConfig env w of
                 (Inl e, wA) \<Rightarrow> (Inl e, options, wA)
               | (Inr correctRoom, wA) \<Rightarrow>
                   fix_room cbc env (options\<lparr>room := Some correctRoom\<rparr>) wA))
       \<and> (startsWith (conversationId bound) (''bot_'' @ stash_botId cbc @ ''_'') \<longrightarrow>
            charon_fix_room_auto_update config s env options w = fix_room cbc env options w
            \<and> map_option roomId
                 (room (fst (snd (charon_fix_room_auto_update config s env options w))))
                = Some (roomId bound)
            \<and> map_option conversationId
                 (room (fst (snd (charon_fix_room_auto_update config s env options w))))
                = Some (conversationId bound))"
proof (cases "isRoomForBot bound (stash_botId cbc)")
  case True
  then have eq: "charon_fix_room_auto_update config s env options w = fix_room cbc env options w"
    using assms by (simp add: charon_fix_room_auto_update_def switch_room_def)
  obtain res o1 w1 where r: "fix_room cbc env options w = (res, o1, w1)"
    by (cases "fix_room cbc env options w")
  from fix_room_same_record [OF r assms(2)] True eq r show ?thesis
    by (simp add: isRoomForBot_def)
next
  case False
  then show ?thesis
    using assms
    by (simp add: charon_fix_room_auto_update_def switch_room_def isRoomForBot_def
          split: prod.splits sum.splits)
qed

theorem reconciliation_switches_room_witness:
  "\<not> startsWith (conversationId scn_host_room) ''bot_disc:42_''
   \<and> getOrCreateBotSpecificRoom scn_direct ''disc:42'' (hd scn_config) scn_env scn_world_rooms
       = (Inr scn_bot_room, scn_world_rooms)
   \<and> charon_fix_room_auto_update scn_config scn_direct scn_env scn_rebound scn_world_rooms
       = fix_room scn_stash scn_env (scn_rebound\<lparr>room := Some scn_bot_room\<rparr>) scn_world_rooms
   \<and> startsWith (conversationId scn_bot_room) ''bot_disc:42_''
   \<and> charon_fix_room_auto_update scn_config scn_direct scn_env
        (scn_rebound\<lparr>room := Some scn_bot_room\<rparr>) scn_world_rooms
       = fix_room scn_stash scn_env (scn_rebound\<lparr>room := Some scn_bot_room\<rparr>) scn_world_rooms"
proof -
  have c: "getBotConfig scn_config (stash_botId scn_stash) = Some (hd scn_config)"
    by (simp add: scn_defs getBotConfig_def)
  have g: "getOrCreateBotSpecificRoom scn_direct ''disc:42'' (hd scn_config) scn_env scn_world_rooms
       = (Inr scn_bot_room, scn_world_rooms)"
    by (simp add: scn_defs run_defs scn_world_rooms_def Let_def)
  have n: "\<not> startsWith (conversationId scn_host_room) ''bot_disc:42_''"
    and y: "startsWith (conversationId scn_bot_room) ''bot_disc:42_''"
    by (simp_all add: scn_defs startsWith_def)
  have b: "stash_botId scn_stash = ''disc:42''" by (simp add: scn_stash_def)
  have "charonBotConfig scn_rebound = Some scn_stash" "room scn_rebound = Some scn_host_room"
    by (simp_all add: scn_rebound_def)
  from reconciliation_switches_room
         [OF this, of scn_config "hd scn_config" scn_direct scn_env scn_world_rooms] c
  have 1: "charon_fix_room_auto_update scn_config scn_direct scn_env scn_rebound scn_world_rooms
       = fix_room scn_stash scn_env (scn_rebound\<lparr>room := Some scn_bot_room\<rparr>) scn_world_rooms"
    using n g b by simp
  have "charonBotConfig (scn_rebound\<lparr>room := Some scn_bot_room\<rparr>) = Some scn_stash"
    "room (scn_rebound\<lparr>room := Some scn_bot_room\<rparr>) = Some scn_bot_room"
    by (simp_all add: scn_rebound_def)
  from reconciliation_switches_room
         [OF this, of scn_config "hd scn_config" scn_direct scn_env scn_world_rooms]
  have 2: "charon_fix_room_auto_update scn_config scn_direct scn_env
        (scn_rebound\<lparr>room := Some scn_bot_room\<rparr>) scn_world_rooms
       = fix_room scn_stash scn_env (scn_rebound\<lparr>room := Some scn_bot_room\<rparr>) scn_world_rooms"
    using y b by simp
  show ?thesis using n g 1 y 2 by simp
qed

section \<open>The key and the autoUpdate flag of created rooms\<close>

lemma scn_resolve_creates:
  "created_rooms (new_writes scn_world
      (snd (snd (charon_resolve_bot_room scn_config scn_direct scn_env scn_options scn_world))))
     = [scn_created_room]"
  by (simp add: scn_defs run_defs scn_created_room_def Let_def)

lemma scn_fix_creates:
  "created_rooms (new_writes scn_world
      (snd (snd (charon_fix_room_auto_update scn_config scn_direct scn_env scn_rebound scn_world))))
     = [scn_created_room]"
  by (simp add: scn_defs run_defs scn_created_room_def scn_rebound_def Let_def)

lemma scn_template_creates:
  "created_rooms (new_writes scn_world
      (handleBotStatusUpdate True scn_config ''disc'' (Some ''42'') scn_env scn_world))
     = [scn_created_room\<lparr>roomName := template_room_prefix @ ''disc:42'',
          visibility := Some ''template_clone'', roomMasterId := Some ''42''\<rparr>]"
  by (simp add: scn_defs run_defs scn_created_room_def handleBotStatusUpdate_def
        createTemplateRoomForBot_def templateRoomOptions_def setBotStatus_def parseBotId_def
        template_room_prefix_def Let_def)

text \<open>
  C4. The rooms a run hands to \<open>create\<close> are found in the store's list of accepted
  writes, which a run only extends. In a run of the first middleware, of the second
  middleware, and of the handler that creates a bot's template room, every such room
  has the \<open>conversationId\<close> \<open>bot_<botId>_<uuid>\<close>, the uuid being the one
  \<open>randomUUID()\<close> returned: with the \<open>botId\<close> of the session, which is
  \<open>platform:selfId\<close>; with the stashed \<open>botId\<close>, which the first middleware took from
  the session; with the \<open>botId\<close> \<open>platform:selfId\<close> of the bot.
\<close>

theorem created_rooms_have_bot_key:
  "(charon_resolve_bot_room config s env options w = (res, options1, w1) \<longrightarrow>
      written w1 = written w @ new_writes w w1
      \<and> (\<forall>r\<in>set (created_rooms (new_writes w w1)).
            conversationId r = ''bot_'' @ session_botId s @ ''_'' @ randomUUID env)
      \<and> session_botId s = platform s @ '':''
            @ template (case bot_selfId s of Some x \<Rightarrow> Some x | None \<Rightarrow> selfId s)
      \<and> (charonBotConfig options = None \<longrightarrow> charonBotConfig options1 = Some cbc1 \<longrightarrow>
            stash_botId cbc1 = session_botId s))
   \<and> (charon_fix_room_auto_update config s env options w = (res, options1, w1) \<longrightarrow>
      charonBotConfig options = Some cbc \<longrightarrow>
      written w1 = written w @ new_writes w w1
      \<and> (\<forall>r\<in>set (created_rooms (new_writes w w1)).
            conversationId r = ''bot_'' @ stash_botId cbc @ ''_'' @ randomUUID env))
   \<and> (handleBotStatusUpdate auto config pf sid env w = w2 \<longrightarrow>
      written w2 = written w @ new_writes w w2
      \<and> (\<forall>r\<in>set (created_rooms (new_writes w w2)).
            conversationId r = ''bot_'' @ pf @ '':'' @ template sid @ ''_'' @ randomUUID env))"
proof (intro conjI impI)
  assume a: "charon_resolve_bot_room config s env options w = (res, options1, w1)"
  from resolve_created [OF a] obtain ws where ws: "written w1 = written w @ ws"
    "\<forall>r\<in>set (created_rooms ws).
       conversationId r = ''bot_'' @ session_botId s @ ''_'' @ randomUUID env
       \<and> autoUpdate r = Some False"
    by blast
  then have n: "new_writes w w1 = ws" by (simp add: new_writes_append)
  show "written w1 = written w @ new_writes w w1" using ws n by simp
  show "\<forall>r\<in>set (created_rooms (new_writes w w1)).
          conversationId r = ''bot_'' @ session_botId s @ ''_'' @ randomUUID env"
    using ws n by simp
  show "session_botId s = platform s @ '':''
          @ template (case bot_selfId s of Some x \<Rightarrow> Some x | None \<Rightarrow> selfId s)"
    by (simp add: session_botId_def getBotId_def)
  assume "charonBotConfig options = None" "charonBotConfig options1 = Some cbc1"
  with resolve_stash [OF a] show "stash_botId cbc1 = session_botId s" by simp
next
  assume a: "charon_fix_room_auto_update config s env options w = (res, options1, w1)"
    and b: "charonBotConfig options = Some cbc"
  from fix_created [OF a b] obtain ws where ws: "written w1 = written w @ ws"
    "\<forall>r\<in>set (created_rooms ws).
       conversationId r = ''bot_'' @ stash_botId cbc @ ''_'' @ randomUUID env
       \<and> autoUpdate r = Some False"
    by blast
  then have n: "new_writes w w1 = ws" by (simp add: new_writes_append)
  show "written w1 = written w @ new_writes w w1" using ws n by simp
  show "\<forall>r\<in>set (created_rooms (new_writes w w1)).
          conversationId r = ''bot_'' @ stash_botId cbc @ ''_'' @ randomUUID env"
    using ws n by simp
next
  assume a: "handleBotStatusUpdate auto config pf sid env w = w2"
  from handleBotStatusUpdate_created [of auto config pf sid env w] a obtain ws
    where ws: "written w2 = written w @ ws"
    "\<forall>r\<in>set (created_rooms ws).
       conversationId r = ''bot_'' @ getBotId pf sid @ ''_'' @ randomUUID env
       \<and> autoUpdate r = Some False"
    by blast
  then have n: "new_writes w w2 = ws" by (simp add: new_writes_append)
  show "written w2 = written w @ new_writes w w2" using ws n by simp
  show "\<forall>r\<in>set (created_rooms (new_writes w w2)).
          conversationId r = ''bot_'' @ pf @ '':'' @ template sid @ ''_'' @ randomUUID env"
    using ws n by (simp add: getBotId_def)
qed

theorem created_rooms_have_bot_key_witness:
  "created_rooms (new_writes scn_world
      (snd (snd (charon_resolve_bot_room scn_config scn_direct scn_env scn_options scn_world))))
     = [scn_created_room]
   \<and> created_rooms (new_writes scn_world
      (snd (snd (charon_fix_room_auto_update scn_config scn_direct scn_env scn_rebound
                   scn_world))))
     = [scn_created_room]
   \<and> conversationId scn_created_room
       = ''bot_'' @ session_botId scn_direct @ ''_'' @ randomUUID scn_env
   \<and> conversationId scn_created_room
       = ''bot_'' @ stash_botId scn_stash @ ''_'' @ randomUUID scn_env
   \<and> map conversationId (created_rooms (new_writes scn_world
          (handleBotStatusUpdate True scn_config ''disc'' (Some ''42'') scn_env scn_world)))
       = [''bot_'' @ ''disc'' @ '':'' @ template (Some ''42'') @ ''_'' @ randomUUID scn_env]"
proof -
  obtain res o1 w1 where
    r: "charon_resolve_bot_room scn_config scn_direct scn_env scn_options scn_world
          = (res, o1, w1)"
    by (cases "charon_resolve_bot_room scn_config scn_direct scn_env scn_options scn_world")
  obtain res' o1' w1' where
    f: "charon_fix_room_auto_update scn_config scn_direct scn_env scn_rebound scn_world
          = (res', o1', w1')"
    by (cases "charon_fix_room_auto_update scn_config scn_direct scn_env scn_rebound scn_world")
  have st: "charonBotConfig scn_rebound = Some scn_stash" by (simp add: scn_rebound_def)
  have 1: "\<forall>r\<in>set (created_rooms (new_writes scn_world w1)).
            conversationId r = ''bot_'' @ session_botId scn_direct @ ''_'' @ randomUUID scn_env"
    using created_rooms_have_bot_key
      [where config = scn_config and s = scn_direct and env = scn_env
         and options = scn_options and w = scn_world and res = res and ?options1.0 = o1
         and ?w1.0 = w1] r
    by blast
  have 2: "\<forall>r\<in>set (created_rooms (new_writes scn_world w1')).
            conversationId r = ''bot_'' @ stash_botId scn_stash @ ''_'' @ randomUUID scn_env"
    using created_rooms_have_bot_key
      [where config = scn_config and s = scn_direct and env = scn_env
         and options = scn_rebound and w = scn_world and res = res' and ?options1.0 = o1'
         and ?w1.0 = w1' and cbc = scn_stash] f st
    by blast
  have 3: "\<forall>r\<in>set (created_rooms (new_writes scn_world
          (handleBotStatusUpdate True scn_config ''disc'' (Some ''42'') scn_env scn_world))).
         conversationId r
           = ''bot_'' @ ''disc'' @ '':'' @ template (Some ''42'') @ ''_'' @ randomUUID scn_env"
    using created_rooms_have_bot_key
      [where config = scn_config and env = scn_env and w = scn_world and auto = True
         and pf = "''disc''" and sid = "Some ''42''"]
    by blast
  show ?thesis
    using 1 2 3 scn_resolve_creates scn_fix_creates scn_template_creates r f
    by simp
qed

text \<open>
  C10. Every room that a run of the first middleware, of the second middleware or of
  the template-room handler hands to \<open>create\<close> has \<open>autoUpdate = false\<close>.
\<close>

theorem created_rooms_autoUpdate_false:
  "(charon_resolve_bot_room config s env options w = (res, options1, w1) \<longrightarrow>
      written w1 = written w @ new_writes w w1
      \<and> (\<forall>r\<in>set (created_rooms (new_writes w w1)). autoUpdate r = Some False))
   \<and> (charon_fix_room_auto_update config s env options w = (res, options1, w1) \<longrightarrow>
      written w1 = written w @ new_writes w w1
      \<and> (\<forall>r\<in>set (created_rooms (new_writes w w1)). autoUpdate r = Some False))
   \<and> (handleBotStatusUpdate auto config pf sid env w = w2 \<longrightarrow>
      written w2 = written w @ new_writes w w2
      \<and> (\<forall>r\<in>set (created_rooms (new_writes w w2)). autoUpdate r = Some False))"
proof (intro conjI impI)
  assume a: "charon_resolve_bot_room config s env options w = (res, options1, w1)"
  from resolve_created [OF a] obtain ws where ws: "written w1 = written w @ ws"
    "\<forall>r\<in>set (created_rooms ws).
       conversationId r = ''bot_'' @ session_botId s @ ''_'' @ randomUUID env
       \<and> autoUpdate r = Some False"
    by blast
  then have n: "new_writes w w1 = ws" by (simp add: new_writes_append)
  show "written w1 = written w @ new_writes w w1" using ws n by simp
  show "\<forall>r\<in>set (created_rooms (new_writes w w1)). autoUpdate r = Some False"
    using ws n by simp
next
  assume a: "charon_fix_room_auto_update config s env options w = (res, options1, w1)"
  have "\<exists>ws. written w1 = written w @ ws
          \<and> (\<forall>r\<in>set (created_rooms ws). autoUpdate r = Some False)"
  proof (cases "charonBotConfig options")
    case None
    then show ?thesis using a by (auto simp add: charon_fix_room_auto_update_def)
  next
    case (Some cbc)
    from fix_created [OF a Some] show ?thesis by blast
  qed
  then obtain ws where ws: "written w1 = written w @ ws"
    "\<forall>r\<in>set (created_rooms ws). autoUpdate r = Some False"
    by blast
  then have n: "new_writes w w1 = ws" by (simp add: new_writes_append)
  show "written w1 = written w @ new_writes w w1" using ws n by simp
  show "\<forall>r\<in>set (created_rooms (new_writes w w1)). autoUpdate r = Some False"
    using ws n by simp
next
  assume a: "handleBotStatusUpdate auto config pf sid env w = w2"
  from handleBotStatusUpdate_created [of auto config pf sid env w] a obtain ws
    where ws: "written w2 = written w @ ws"
    "\<forall>r\<in>set (created_rooms ws).
       conversationId r = ''bot_'' @ getBotId pf sid @ ''_'' @ randomUUID env
       \<and> autoUpdate r = Some False"
    by blast
  then have n: "new_writes w w2 = ws" by (simp add: new_writes_append)
  show "written w2 = written w @ new_writes w w2" using ws n by simp
  show "\<forall>r\<in>set (created_rooms (new_writes w w2)). autoUpdate r = Some False"
    using ws n by simp
qed

theorem created_rooms_autoUpdate_false_witness:
  "created_rooms (new_writes scn_world
      (snd (snd (charon_resolve_bot_room scn_config scn_group scn_env scn_options scn_world))))
     = [scn_created_room\<lparr>roomName := ''lobby (disc:42)'',
                          visibility := Some ''template_clone''\<rparr>]
   \<and> map autoUpdate (created_rooms (new_writes scn_world
          (snd (snd (charon_resolve_bot_room scn_config scn_group scn_env scn_options
                       scn_world)))))
       = [Some False]
   \<and> map autoUpdate (created_rooms (new_writes scn_world
          (snd (snd (charon_fix_room_auto_update scn_config scn_direct scn_env scn_rebound
                       scn_world)))))
       = [Some False]
   \<and> map autoUpdate (created_rooms (new_writes scn_world
          (handleBotStatusUpdate True scn_config ''disc'' (Some ''42'') scn_env scn_world)))
       = [Some False]"
proof -
  obtain res o1 w1 where
    r: "charon_resolve_bot_room scn_config scn_group scn_env scn_options scn_world
          = (res, o1, w1)"
    by (cases "charon_resolve_bot_room scn_config scn_group scn_env scn_options scn_world")
  obtain res' o1' w1' where
    f: "charon_fix_room_auto_update scn_config scn_direct scn_env scn_rebound scn_world
          = (res', o1', w1')"
    by (cases "charon_fix_room_auto_update scn_config scn_direct scn_env scn_rebound scn_world")
  have 0: "created_rooms (new_writes scn_world
      (snd (snd (charon_resolve_bot_room scn_config scn_group scn_env scn_options scn_world))))
     = [scn_created_room\<lparr>roomName := ''lobby (disc:42)'',
                          visibility := Some ''template_clone''\<rparr>]"
    by (simp add: scn_defs run_defs scn_created_room_def Let_def)
  have 1: "\<forall>r\<in>set (created_rooms (new_writes scn_world w1)). autoUpdate r = Some False"
    using created_rooms_autoUpdate_false
      [where config = scn_config and s = scn_group and env = scn_env
         and options = scn_options and w = scn_world and res = res and ?options1.0 = o1
         and ?w1.0 = w1] r
    by blast
  have 2: "\<forall>r\<in>set (created_rooms (new_writes scn_world w1')). autoUpdate r = Some False"
    using created_rooms_autoUpdate_false
      [where config = scn_config and s = scn_direct and env = scn_env
         and options = scn_rebound and w = scn_world and res = res' and ?options1.0 = o1'
         and ?w1.0 = w1'] f
    by blast
  have 3: "\<forall>r\<in>set (created_rooms (new_writes scn_world
          (handleBotStatusUpdate True scn_config ''disc'' (Some ''42'') scn_env scn_world))).
         autoUpdate r = Some False"
    using created_rooms_autoUpdate_false
      [where config = scn_config and env = scn_env and w = scn_world and auto = True
         and pf = "''disc''" and sid = "Some ''42''"]
    by blast
  show ?thesis
    using 0 1 2 3 scn_fix_creates scn_template_creates r f by simp
qed

section \<open>Unconfigured identities, and the memory layer\<close>

text \<open>
  C9, as stated, at the scenario with no configuration at all: the first middleware
  returns \<open>CONTINUE\<close>, the status it also returns after binding a room, and not
  \<open>SKIPPED\<close>, the pass-through status of \<open>ChainMiddlewareRunStatus\<close>.
\<close>

theorem resolve_unconfigured_returns_continue:
  "fst (charon_resolve_bot_room [] scn_direct scn_env scn_options scn_world) = Inr CONTINUE
   \<and> fst (charon_resolve_bot_room [] scn_direct scn_env scn_options scn_world) \<noteq> Inr SKIPPED"
  by (simp add: charon_resolve_bot_room_def getBotConfig_def Let_def)

text \<open>
  C9, amended. When no configuration with the session's \<open>botId\<close> is enabled, or the
  configuration found for it declares an empty preset and an empty model, the first
  middleware returns \<open>CONTINUE\<close> and leaves the context and the store as they were:
  no room is bound, nothing is stashed, nothing is written.
\<close>

theorem resolve_unconfigured_untouched:
  assumes "(\<forall>bot\<in>set config. botId bot = session_botId s \<longrightarrow> \<not> enabled bot)
           \<or> (\<exists>bc. getBotConfig config (session_botId s) = Some bc
                  \<and> cfg_preset bc = [] \<and> cfg_model bc = [])"
  shows "charon_resolve_bot_room config s env options w = (Inr CONTINUE, options, w)"
proof (cases "getBotConfig config (session_botId s)")
  case None
  then show ?thesis by (simp add: charon_resolve_bot_room_def)
next
  case (Some bc)
  then have "bc \<in> set config" "botId bc = session_botId s"
    by (auto simp add: getBotConfig_def dest: find_Some_set)
  with assms Some have "\<not> enabled bc \<or> (cfg_preset bc = [] \<and> cfg_model bc = [])"
    by auto
  with Some show ?thesis by (auto simp add: charon_resolve_bot_room_def Let_def)
qed

theorem resolve_unconfigured_untouched_witness:
  "charon_resolve_bot_room [] scn_direct scn_env scn_options scn_world
     = (Inr CONTINUE, scn_options, scn_world)
   \<and> charon_resolve_bot_room scn_config_disabled scn_direct scn_env scn_options scn_world
     = (Inr CONTINUE, scn_options, scn_world)
   \<and> charon_resolve_bot_room scn_config_undeclared scn_direct scn_env scn_options scn_world
     = (Inr CONTINUE, scn_options, scn_world)
   \<and> room scn_options = None \<and> written scn_world = []"
proof -
  have 1: "\<forall>bot\<in>set []. botId bot = session_botId scn_direct \<longrightarrow> \<not> enabled bot" by simp
  have 2: "\<forall>bot\<in>set scn_config_disabled. botId bot = session_botId scn_direct \<longrightarrow> \<not> enabled bot"
    by (simp add: scn_config_disabled_def scn_config_def)
  have 3: "\<exists>bc. getBotConfig scn_config_undeclared (session_botId scn_direct) = Some bc
                  \<and> cfg_preset bc = [] \<and> cfg_model bc = []"
    by (simp add: scn_config_undeclared_def scn_config_def getBotConfig_def session_botId_def
          getBotId_def scn_direct_def template_def)
  show ?thesis
    using resolve_unconfigured_untouched [OF disjI1, OF 1, of scn_env scn_options scn_world]
      resolve_unconfigured_untouched [OF disjI1, OF 2, of scn_env scn_options scn_world]
      resolve_unconfigured_untouched [OF disjI2, OF 3, of scn_env scn_options scn_world]
    by (simp add: scn_options_def scn_world_def)
qed

text \<open>
  C7, at the scenario's group message with isolation on: the user and group
  identifiers of the layer get the prefix \<open>42_\<close>, the bot's \<open>selfId\<close>, where the
  identity's id \<open>platform:selfId\<close> is \<open>disc:42\<close>.
\<close>

theorem init_layer_prefixes_selfId:
  "init_layer True scn_layer
     = scn_layer\<lparr>layer_userId := Some ''42_u1'', layer_guildId := Some ''42_g1''\<rparr>
   \<and> session_botId scn_group = ''disc:42''
   \<and> layer_userId (init_layer True scn_layer) \<noteq> Some (session_botId scn_group @ ''_u1'')"
  by (simp add: init_layer_def scn_layer_def scn_group_def scn_direct_def truthy_def
        template_def session_botId_def getBotId_def Let_def)

section \<open>Find-or-create, and the errors of create\<close>

text \<open>
  C5, as stated, at the renamed room: its key embeds \<open>disc:42\<close>, so the specification's
  find-or-create returns it; \<open>getOrCreateBotSpecificRoom\<close> filters on the name, finds
  no candidate and creates room 2.
\<close>

theorem find_or_create_ignores_key:
  "find_or_create_spec candidates_by_key scn_direct ''disc:42'' (hd scn_config) scn_env
      scn_world_renamed = (Inr scn_renamed_room, scn_world_renamed)
   \<and> fst (getOrCreateBotSpecificRoom scn_direct ''disc:42'' (hd scn_config) scn_env
           scn_world_renamed)
       = Inr (scn_created_room\<lparr>roomId := 2\<rparr>)
   \<and> scn_created_room\<lparr>roomId := 2\<rparr> \<noteq> scn_renamed_room"
  by (simp add: scn_defs run_defs scn_renamed_room_def scn_world_renamed_def
        scn_created_room_def find_or_create_spec_def candidates_by_key_def
        membership_rooms_def tie_break_def Let_def)

lemma find_eq: "(\<And>x. x \<in> set xs \<Longrightarrow> P x = Q x) \<Longrightarrow> find P xs = find Q xs"
  by (induction xs) auto

lemma selectedRoom_tie_break:
  "selectedRoom s bid w = tie_break s w (candidates_by_name s bid w)"
proof (cases "filter (\<lambda>m. member_userId m = Some (userId s)) (chathub_room_member w) = []")
  case True
  then show ?thesis
    by (simp add: selectedRoom_def tie_break_def candidates_by_name_def membership_rooms_def)
next
  case False
  let ?ids = "set (map member_roomId
                (filter (\<lambda>m. member_userId m = Some (userId s)) (chathub_room_member w)))"
  let ?rooms = "candidates_by_name s bid w"
  have in_ids: "roomId r \<in> ?ids" if "r \<in> set ?rooms" for r
    using that by (auto simp add: candidates_by_name_def membership_rooms_def)
  have assoc: "associated_with_group s w r
      = (roomId r \<in> set (map group_roomId
           (filter (\<lambda>g. Some (group_groupId g) = guildId s \<and> group_roomId g \<in> ?ids)
              (chathub_room_group_member w))))" if "r \<in> set ?rooms" for r
    using in_ids [OF that] by (auto simp add: associated_with_group_def)
  have g1: "find (\<lambda>r. roomId r \<in> set (map group_roomId
           (filter (\<lambda>g. Some (group_groupId g) = guildId s \<and> group_roomId g \<in> ?ids)
              (chathub_room_group_member w))) \<and> visibility r = Some ''template_clone'') ?rooms
      = find (\<lambda>r. associated_with_group s w r \<and> visibility r = Some ''template_clone'') ?rooms"
    by (rule find_eq) (simp add: assoc)
  have g2: "find (\<lambda>r. roomId r \<in> set (map group_roomId
           (filter (\<lambda>g. Some (group_groupId g) = guildId s \<and> group_roomId g \<in> ?ids)
              (chathub_room_group_member w)))) ?rooms
      = find (associated_with_group s w) ?rooms"
    by (rule find_eq) (simp add: assoc)
  have rooms: "filter (\<lambda>r. str_includes (roomName r) (bot_tag bid))
                 (filter (\<lambda>r. roomId r \<in> ?ids) (chathub_room w)) = ?rooms"
    by (simp add: candidates_by_name_def membership_rooms_def)
  show ?thesis
    using False
    unfolding selectedRoom_def tie_break_def Let_def rooms
    by (simp only: g1 g2 length_greater_0_conv if_True not_False_eq_True simp_thms)
qed

text \<open>
  C5, amended. \<open>getOrCreateBotSpecificRoom\<close> is the specification's find-or-create
  with, as candidates, the rooms the user is a member of whose name contains the id
  in parentheses, \<open>(<botId>)\<close>: in a group, the first candidate associated with the
  group and of visibility \<open>template_clone\<close>, else the first associated with the group;
  in a direct message, the first private candidate whose master is the user, else the
  first private one, else the first. With no such room it creates one, of visibility
  \<open>private\<close> in a direct message and \<open>template_clone\<close> in a group.
\<close>

theorem find_or_create_by_name:
  "getOrCreateBotSpecificRoom s bid botConfig env w
     = find_or_create_spec candidates_by_name s bid botConfig env w
   \<and> (createBotSpecificRoom s bid botConfig env w = (Inr n, w') \<longrightarrow>
        visibility n = Some (if isDirect s then ''private'' else ''template_clone''))"
proof -
  have "visibility n = Some (if isDirect s then ''private'' else ''template_clone'')"
    if "createBotSpecificRoom s bid botConfig env w = (Inr n, w')"
    using createBotSpecificRoom_Inr [OF that]
    by (simp add: newRoom_of_def botRoomOptions_def Let_def)
  then show ?thesis
    by (simp add: getOrCreateBotSpecificRoom_def find_or_create_spec_def
          selectedRoom_tie_break)
qed

theorem find_or_create_by_name_witness:
  "getOrCreateBotSpecificRoom scn_direct ''disc:42'' (hd scn_config) scn_env scn_world_rooms
     = (Inr scn_bot_room, scn_world_rooms)
   \<and> getOrCreateBotSpecificRoom scn_group ''disc:42'' (hd scn_config) scn_env scn_world_group
     = (Inr scn_clone_room, scn_world_group)
   \<and> find_or_create_spec candidates_by_name scn_group ''disc:42'' (hd scn_config) scn_env
        scn_world_group
     = (Inr scn_clone_room, scn_world_group)
   \<and> (\<exists>n w'. createBotSpecificRoom scn_group ''disc:42'' (hd scn_config) scn_env scn_world
                = (Inr n, w')
          \<and> visibility n = Some ''template_clone'')
   \<and> (\<exists>n w'. createBotSpecificRoom scn_direct ''disc:42'' (hd scn_config) scn_env scn_world
                = (Inr n, w')
          \<and> visibility n = Some ''private'')"
proof -
  have 1: "getOrCreateBotSpecificRoom scn_direct ''disc:42'' (hd scn_config) scn_env
             scn_world_rooms = (Inr scn_bot_room, scn_world_rooms)"
    by (simp add: scn_defs run_defs scn_world_rooms_def Let_def)
  have 2: "getOrCreateBotSpecificRoom scn_group ''disc:42'' (hd scn_config) scn_env
             scn_world_group = (Inr scn_clone_room, scn_world_group)"
    by (simp add: scn_defs run_defs scn_world_group_def scn_public_room_def scn_clone_room_def
          Let_def)
  obtain n w' where 3: "createBotSpecificRoom scn_group ''disc:42'' (hd scn_config) scn_env
                          scn_world = (Inr n, w')"
    by (simp add: scn_defs run_defs Let_def)
  obtain m v' where 4: "createBotSpecificRoom scn_direct ''disc:42'' (hd scn_config) scn_env
                          scn_world = (Inr m, v')"
    by (simp add: scn_defs run_defs Let_def)
  have g: "\<not> isDirect scn_group" and d: "isDirect scn_direct"
    by (simp_all add: scn_defs isDirect_def truthy_def)
  show ?thesis
    using find_or_create_by_name
        [of scn_group "''disc:42''" "hd scn_config" scn_env scn_world_group]
      find_or_create_by_name
        [of scn_group "''disc:42''" "hd scn_config" scn_env scn_world n w']
      find_or_create_by_name
        [of scn_direct "''disc:42''" "hd scn_config" scn_env scn_world m v']
      1 2 3 4 g d
    by simp
qed

lemma createRoom_refuses:
  "createRoom opts env w = (res, w') \<Longrightarrow> refuses w' = refuses w"
  by (auto simp add: createRoom_def Let_def db_create_room_def db_create_member_def
        db_create_group_member_def split: option.splits if_splits)

text \<open>
  C8, as stated, at a store that answers the create of the membership row with a
  uniqueness violation: the first middleware throws it, and no room is bound.
\<close>

theorem resolve_throws_uniqueness_violation:
  "fst (charon_resolve_bot_room scn_config scn_direct scn_env scn_options
          scn_world_member_exists) = Inl UniqueConstraint
   \<and> room (fst (snd (charon_resolve_bot_room scn_config scn_direct scn_env scn_options
                       scn_world_member_exists))) = None"
  by (simp add: scn_defs run_defs scn_world_member_exists_def Let_def)

text \<open>
  C8, amended. An error of the create of the user's default-room row, a uniqueness
  violation or any other, is caught: \<open>createBotSpecificRoom\<close> returns the room
  \<open>createRoom\<close> returned. An error of the create of the room, of the membership row or
  of the group association, a uniqueness violation included, is thrown on by
  \<open>createRoom\<close>, by \<open>createBotSpecificRoom\<close> and by \<open>getOrCreateBotSpecificRoom\<close> when it
  has found no room.
\<close>

theorem create_errors:
  "(createRoom (botRoomOptions s bid botConfig) env w = (Inr n, w1) \<longrightarrow>
      refuses w create_chathub_user = Some e \<longrightarrow>
      createBotSpecificRoom s bid botConfig env w = (Inr n, w1))
   \<and> (refuses w create_chathub_room = Some e \<longrightarrow> createRoom opts env w = (Inl e, w))
   \<and> (refuses w create_chathub_room = None \<longrightarrow>
      refuses w create_chathub_room_member = Some e \<longrightarrow>
      fst (createRoom opts env w) = Inl e)
   \<and> (refuses w create_chathub_room = None \<longrightarrow>
      refuses w create_chathub_room_member = None \<longrightarrow>
      refuses w create_chathub_room_group_member = Some e \<longrightarrow>
      truthy (opt_guildId opts) \<longrightarrow> opt_visibility opts \<noteq> ''private'' \<longrightarrow>
      fst (createRoom opts env w) = Inl e)
   \<and> (fst (createRoom (botRoomOptions s bid botConfig) env w) = Inl e \<longrightarrow>
      fst (createBotSpecificRoom s bid botConfig env w) = Inl e
      \<and> (selectedRoom s bid w = None \<longrightarrow>
           fst (getOrCreateBotSpecificRoom s bid botConfig env w) = Inl e))"
proof (intro conjI impI)
  assume a: "createRoom (botRoomOptions s bid botConfig) env w = (Inr n, w1)"
    and b: "refuses w create_chathub_user = Some e"
  from createRoom_refuses [OF a] b have "refuses w1 create_chathub_user = Some e" by simp
  then show "createBotSpecificRoom s bid botConfig env w = (Inr n, w1)"
    using a by (simp add: createBotSpecificRoom_def db_create_user_def)
next
  assume "refuses w create_chathub_room = Some e"
  then show "createRoom opts env w = (Inl e, w)"
    by (simp add: createRoom_def db_create_room_def Let_def)
next
  assume "refuses w create_chathub_room = None" "refuses w create_chathub_room_member = Some e"
  then show "fst (createRoom opts env w) = Inl e"
    by (simp add: createRoom_def db_create_room_def db_create_member_def Let_def)
next
  assume "refuses w create_chathub_room = None" "refuses w create_chathub_room_member = None"
    "refuses w create_chathub_room_group_member = Some e"
    "truthy (opt_guildId opts)" "opt_visibility opts \<noteq> ''private''"
  then show "fst (createRoom opts env w) = Inl e"
    by (simp add: createRoom_def db_create_room_def db_create_member_def
          db_create_group_member_def Let_def)
next
  assume a: "fst (createRoom (botRoomOptions s bid botConfig) env w) = Inl e"
  then show c: "fst (createBotSpecificRoom s bid botConfig env w) = Inl e"
    by (cases "createRoom (botRoomOptions s bid botConfig) env w")
       (simp add: createBotSpecificRoom_def)
  assume "selectedRoom s bid w = None"
  with c show "fst (getOrCreateBotSpecificRoom s bid botConfig env w) = Inl e"
    by (simp add: getOrCreateBotSpecificRoom_def)
qed

theorem create_errors_witness:
  "charon_resolve_bot_room scn_config scn_direct scn_env scn_options scn_world_user_exists
     = (Inr CONTINUE,
        scn_options\<lparr>room := Some scn_created_room, charonBotConfig := Some scn_stash\<rparr>,
        scn_world_user_exists
          \<lparr>chathub_room := [scn_created_room],
           chathub_room_member := [scn_member],
           written := [CreateRoom scn_created_room, CreateMember scn_member]\<rparr>)
   \<and> fst (createBotSpecificRoom scn_direct ''disc:42'' (hd scn_config) scn_env
           scn_world_user_exists) = Inr scn_created_room
   \<and> fst (createRoom (botRoomOptions scn_direct ''disc:42'' (hd scn_config)) scn_env
           scn_world_member_exists) = Inl UniqueConstraint
   \<and> fst (getOrCreateBotSpecificRoom scn_direct ''disc:42'' (hd scn_config) scn_env
           scn_world_member_exists) = Inl UniqueConstraint"
proof -
  have 0: "charon_resolve_bot_room scn_config scn_direct scn_env scn_options
             scn_world_user_exists
     = (Inr CONTINUE,
        scn_options\<lparr>room := Some scn_created_room, charonBotConfig := Some scn_stash\<rparr>,
        scn_world_user_exists
          \<lparr>chathub_room := [scn_created_room],
           chathub_room_member := [scn_member],
           written := [CreateRoom scn_created_room, CreateMember scn_member]\<rparr>)"
    by (simp add: scn_defs run_defs scn_world_user_exists_def scn_created_room_def Let_def)
  obtain w1 where 1: "createRoom (botRoomOptions scn_direct ''disc:42'' (hd scn_config)) scn_env
             scn_world_user_exists = (Inr scn_created_room, w1)"
    by (simp add: scn_defs run_defs scn_world_user_exists_def scn_created_room_def Let_def)
  have 2: "refuses scn_world_user_exists create_chathub_user = Some UniqueConstraint"
    by (simp add: scn_world_user_exists_def scn_world_def)
  have 3: "refuses scn_world_member_exists create_chathub_room = None"
    "refuses scn_world_member_exists create_chathub_room_member = Some UniqueConstraint"
    by (simp_all add: scn_world_member_exists_def scn_world_def)
  have 4: "selectedRoom scn_direct ''disc:42'' scn_world_member_exists = None"
    by (simp add: selectedRoom_def scn_world_member_exists_def scn_world_def)
  note t = create_errors
    [where s = scn_direct and bid = "''disc:42''" and botConfig = "hd scn_config"
       and env = scn_env and e = UniqueConstraint]
  have 5: "fst (createRoom (botRoomOptions scn_direct ''disc:42'' (hd scn_config)) scn_env
           scn_world_member_exists) = Inl UniqueConstraint"
    using t [where w = scn_world_member_exists
               and opts = "botRoomOptions scn_direct ''disc:42'' (hd scn_config)"] 3
    by blast
  have 6: "fst (getOrCreateBotSpecificRoom scn_direct ''disc:42'' (hd scn_config) scn_env
           scn_world_member_exists) = Inl UniqueConstraint"
    using t [where w = scn_world_member_exists] 4 5 by blast
  have 7: "createBotSpecificRoom scn_direct ''disc:42'' (hd scn_config) scn_env
           scn_world_user_exists = (Inr scn_created_room, w1)"
    using t [where w = scn_world_user_exists and n = scn_created_room and ?w1.0 = w1] 1 2
    by blast
  show ?thesis using 0 5 6 7 by simp
qed

end
